theory Spec2Isabelle
  imports Complex_Main
begin

section \<open>Python values, exceptions and the telemetry log\<close>

text \<open>
  The module \<^verbatim>\<open>embeddings_wrappers.py\<close> works on dynamically typed data: the response of
  the embeddings call is a mapping (or an object turned into one), the keyword arguments
  are a mapping, and every step that reads them can raise. The values are therefore a
  datatype of Python values, and every operation the source applies to them returns
  either the exception Python raises or the value.

  An exception carries its class name, its message and whether its class derives from
  \<^verbatim>\<open>Exception\<close>: the handlers of the module are \<^verbatim>\<open>except Exception\<close>, which lets
  \<^verbatim>\<open>KeyboardInterrupt\<close>, \<^verbatim>\<open>SystemExit\<close> and the like pass.
\<close>

datatype pyexn = PyExn (exn_class: string) (exn_message: string) (is_Exception: bool)

text \<open>
  \<open>PCoro r\<close> is a coroutine object: what calling an \<^verbatim>\<open>async def\<close> function returns.
  Awaiting it gives the outcome \<open>r\<close>. Floats are read as reals: the module only
  subtracts two clock readings and compares the difference with zero, and the sign of a
  floating-point difference is the sign of the exact one.
\<close>

datatype pyval =
    PNone
  | PBool bool
  | PInt int
  | PFloat real
  | PStr string
  | PList "pyval list"
  | PDict "(string \<times> pyval) list"
  | PCoro "pyexn + pyval"

type_synonym attrs = "(string \<times> pyval) list"

text \<open>
  What the collaborators have been asked to do, in order. A counter's \<^verbatim>\<open>add\<close>, the
  histogram's \<^verbatim>\<open>record\<close>, the span's start and end and the logger's warning are
  calls of the OpenTelemetry API and of \<^verbatim>\<open>logging\<close>, which return normally; the
  helpers of the package (\<^verbatim>\<open>_set_request_attributes\<close>, \<^verbatim>\<open>_set_response_attributes\<close>,
  \<^verbatim>\<open>_set_span_attribute\<close>, \<^verbatim>\<open>model_as_dict\<close>) may raise, and are logged when they
  return.
\<close>

datatype event =
    TokenCounterAdd pyval attrs
  | VectorSizeCounterAdd pyval attrs
  | DurationRecord real attrs
  | SpanStart string string attrs
  | SpanEnd
  | SetRequestAttributes attrs
  | SetResponseAttributes pyval
  | SetSpanAttribute string pyval
  | LogWarning string

record world =
  events :: "event list"
  clock_reads :: nat

text \<open>
  The collaborators of the module, none of which is defined in it: the ambient
  suppression flag, the version switch, the privacy toggle, the base URL, the allow-list
  \<^verbatim>\<open>OPENAI_LLM_USAGE_TOKEN_TYPES\<close>, the wall clock (its n-th reading, which may raise and
  need not be monotonic), and for each helper of the package the exception it raises on
  given arguments, if any.
\<close>

record env =
  suppress_instrumentation :: bool
  is_openai_v1 :: bool
  should_send_prompts :: bool
  get_openai_base_url :: string
  OPENAI_LLM_USAGE_TOKEN_TYPES :: "string list"
  time_time :: "nat \<Rightarrow> pyexn + real"
  model_as_dict :: "pyval \<Rightarrow> pyexn + pyval"
  span_is_recording :: bool
  set_request_attributes_raises :: "attrs \<Rightarrow> pyexn option"
  set_response_attributes_raises :: "pyval \<Rightarrow> pyexn option"
  set_span_attribute_raises :: "string \<Rightarrow> pyval \<Rightarrow> pyexn option"

type_synonym 'a prog = "world \<Rightarrow> (pyexn + 'a) \<times> world"

definition ret :: "'a \<Rightarrow> 'a prog" where
  "ret x s = (Inr x, s)"

definition raise :: "pyexn \<Rightarrow> 'a prog" where
  "raise e s = (Inl e, s)"

definition bind :: "'a prog \<Rightarrow> ('a \<Rightarrow> 'b prog) \<Rightarrow> 'b prog" where
  "bind m f s = (case m s of (Inl e, s') \<Rightarrow> (Inl e, s') | (Inr x, s') \<Rightarrow> f x s')"

definition lift :: "pyexn + 'a \<Rightarrow> 'a prog" where
  "lift r s = (r, s)"

definition emit :: "event \<Rightarrow> unit prog" where
  "emit ev s = (Inr (), s\<lparr>events := events s @ [ev]\<rparr>)"

text \<open>A helper of the package: it raises, or it returns and its call is logged.\<close>

definition helper_call :: "pyexn option \<Rightarrow> event \<Rightarrow> unit prog" where
  "helper_call raises ev = (case raises of Some e \<Rightarrow> raise e | None \<Rightarrow> emit ev)"

text \<open>\<^verbatim>\<open>try: body except Exception as ex: handler\<close>\<close>

definition try_except_Exception :: "'a prog \<Rightarrow> (pyexn \<Rightarrow> 'a prog) \<Rightarrow> 'a prog" where
  "try_except_Exception body handler s =
     (case body s of
        (Inl ex, s') \<Rightarrow> if is_Exception ex then handler ex s' else (Inl ex, s')
      | (Inr x, s') \<Rightarrow> (Inr x, s'))"

text \<open>\<^verbatim>\<open>time.time()\<close>: the next reading of the clock.\<close>

definition read_clock :: "env \<Rightarrow> real prog" where
  "read_clock env s = (time_time env (clock_reads s), s\<lparr>clock_reads := Suc (clock_reads s)\<rparr>)"

subsection \<open>The operations of Python the module uses\<close>

fun type_name :: "pyval \<Rightarrow> string" where
  "type_name PNone = ''NoneType''"
| "type_name (PBool _) = ''bool''"
| "type_name (PInt _) = ''int''"
| "type_name (PFloat _) = ''float''"
| "type_name (PStr _) = ''str''"
| "type_name (PList _) = ''list''"
| "type_name (PDict _) = ''dict''"
| "type_name (PCoro _) = ''coroutine''"

definition quoted :: "string \<Rightarrow> string" where
  "quoted s = CHR 0x27 # s @ [CHR 0x27]"

definition AttributeError :: "pyval \<Rightarrow> string \<Rightarrow> pyexn" where
  "AttributeError v a =
     PyExn ''AttributeError'' (quoted (type_name v) @ '' object has no attribute '' @ quoted a) True"

definition TypeError :: "string \<Rightarrow> pyexn" where
  "TypeError m = PyExn ''TypeError'' m True"

definition IndexError :: "string \<Rightarrow> pyexn" where
  "IndexError m = PyExn ''IndexError'' m True"

definition KeyError :: "string \<Rightarrow> pyexn" where
  "KeyError m = PyExn ''KeyError'' m True"

text \<open>Truth value testing, as \<^verbatim>\<open>if x\<close>, \<^verbatim>\<open>not x\<close> and \<^verbatim>\<open>x or y\<close> do it.\<close>

fun truthy :: "pyval \<Rightarrow> bool" where
  "truthy PNone = False"
| "truthy (PBool b) = b"
| "truthy (PInt i) = (i \<noteq> 0)"
| "truthy (PFloat r) = (r \<noteq> 0)"
| "truthy (PStr s) = (s \<noteq> [])"
| "truthy (PList xs) = (xs \<noteq> [])"
| "truthy (PDict kvs) = (kvs \<noteq> [])"
| "truthy (PCoro _) = True"

text \<open>\<^verbatim>\<open>x or y\<close>\<close>

definition py_or :: "pyval \<Rightarrow> pyval \<Rightarrow> pyval" where
  "py_or x y = (if truthy x then x else y)"

text \<open>
  \<^verbatim>\<open>obj.get(key, default)\<close>: only a mapping has the method. A mapping is the list of
  its items in insertion order; the first item with the key is the key's value.
\<close>

fun py_get :: "pyval \<Rightarrow> string \<Rightarrow> pyval \<Rightarrow> pyexn + pyval" where
  "py_get (PDict kvs) key dflt = Inr (case map_of kvs key of Some v \<Rightarrow> v | None \<Rightarrow> dflt)"
| "py_get v key dflt = Inl (AttributeError v ''get'')"

text \<open>\<^verbatim>\<open>obj.items()\<close>\<close>

fun py_items :: "pyval \<Rightarrow> pyexn + (string \<times> pyval) list" where
  "py_items (PDict kvs) = Inr kvs"
| "py_items v = Inl (AttributeError v ''items'')"

text \<open>\<^verbatim>\<open>obj[0]\<close>. The keys of a mapping are strings here, so \<open>0\<close> is never one.\<close>

fun py_index0 :: "pyval \<Rightarrow> pyexn + pyval" where
  "py_index0 (PList []) = Inl (IndexError ''list index out of range'')"
| "py_index0 (PList (x # xs)) = Inr x"
| "py_index0 (PStr []) = Inl (IndexError ''string index out of range'')"
| "py_index0 (PStr (c # cs)) = Inr (PStr [c])"
| "py_index0 (PDict kvs) = Inl (KeyError ''0'')"
| "py_index0 v = Inl (TypeError (quoted (type_name v) @ '' object is not subscriptable''))"

text \<open>\<^verbatim>\<open>len(obj)\<close>\<close>

fun py_len :: "pyval \<Rightarrow> pyexn + nat" where
  "py_len (PStr s) = Inr (length s)"
| "py_len (PList xs) = Inr (length xs)"
| "py_len (PDict kvs) = Inr (length kvs)"
| "py_len v = Inl (TypeError (''object of type '' @ quoted (type_name v) @ '' has no len()''))"

text \<open>\<^verbatim>\<open>name.split('_')[0]\<close>: the text before the first underscore, all of it if there is none.\<close>

definition split_underscore_first :: "string \<Rightarrow> string" where
  "split_underscore_first name = takeWhile (\<lambda>c. c \<noteq> CHR ''_'') name"

text \<open>\<^verbatim>\<open>await obj\<close>\<close>

fun await :: "pyval \<Rightarrow> pyval prog" where
  "await (PCoro outcome) = lift outcome"
| "await v = raise (TypeError (''object '' @ type_name v @ '' can't be used in 'await' expression''))"

text \<open>The decimal digits of \<open>i\<close>, as \<^verbatim>\<open>f"{i}"\<close> gives them.\<close>

definition digit_char :: "nat \<Rightarrow> char" where
  "digit_char d = ''0123456789'' ! d"

fun str_nat :: "nat \<Rightarrow> string" where
  "str_nat n = (if n < 10 then [digit_char n] else str_nat (n div 10) @ [digit_char (n mod 10)])"

declare str_nat.simps [simp del]

section \<open>The metrics wrapper\<close>

text \<open>
  The \<^verbatim>\<open>try\<close> block of \<^verbatim>\<open>embeddings_metrics_wrapper\<close> (lines 41 to 45). It leaves
  either normally, with \<^verbatim>\<open>response\<close>, \<^verbatim>\<open>start_time\<close> and \<^verbatim>\<open>end_time\<close> bound, or by an
  exception, with \<^verbatim>\<open>start_time\<close> bound only if the first reading of the clock
  returned.
\<close>

datatype try_exit =
    Completed pyval real real
  | Raised pyexn "real option"

type_synonym callable = "pyval list \<Rightarrow> attrs \<Rightarrow> pyexn + pyval"

definition metrics_try_block :: "env \<Rightarrow> callable \<Rightarrow> pyval list \<Rightarrow> attrs \<Rightarrow> world \<Rightarrow> try_exit \<times> world" where
  "metrics_try_block env wrapped args kwargs s =
     (case read_clock env s of
        (Inl e, s1) \<Rightarrow> (Raised e None, s1)
      | (Inr start_time, s1) \<Rightarrow>
          (case wrapped args kwargs of
             Inl e \<Rightarrow> (Raised e (Some start_time), s1)
           | Inr response \<Rightarrow>
               (case read_clock env s1 of
                  (Inl e, s2) \<Rightarrow> (Raised e (Some start_time), s2)
                | (Inr end_time, s2) \<Rightarrow> (Completed response start_time end_time, s2))))"

text \<open>The handler, lines 47 to 60.\<close>

definition metrics_except_block :: "env \<Rightarrow> pyexn \<Rightarrow> real option \<Rightarrow> pyval prog" where
  "metrics_except_block env e start_time =
     bind (read_clock env) (\<lambda>end_time.
       let duration = (case start_time of Some st \<Rightarrow> end_time - st | None \<Rightarrow> 0);
           attributes = [(''error.type'', PStr (exn_class e)),
                         (''server.address'', PStr (get_openai_base_url env))]
       in bind (emit (TokenCounterAdd (PInt 1) attributes)) (\<lambda>_.
          bind (emit (VectorSizeCounterAdd (PInt 1) attributes)) (\<lambda>_.
          bind (if duration > 0 then emit (DurationRecord duration attributes) else ret ()) (\<lambda>_.
          raise e))))"

text \<open>The loop over \<^verbatim>\<open>usage.items()\<close>, lines 75 to 78.\<close>

fun record_tokens :: "env \<Rightarrow> attrs \<Rightarrow> (string \<times> pyval) list \<Rightarrow> unit prog" where
  "record_tokens env shared_attributes [] = ret ()"
| "record_tokens env shared_attributes ((name, val) # rest) =
     bind (if name \<in> set (OPENAI_LLM_USAGE_TOKEN_TYPES env)
           then emit (TokenCounterAdd val
                  (shared_attributes @ [(''llm.usage.token_type'', PStr (split_underscore_first name))]))
           else ret ())
       (\<lambda>_. record_tokens env shared_attributes rest)"

text \<open>The normalisation of the response, lines 62 to 65 and 135 to 138.\<close>

definition response_as_dict :: "env \<Rightarrow> pyval \<Rightarrow> pyexn + pyval" where
  "response_as_dict env response =
     (if is_openai_v1 env then model_as_dict env response else Inr response)"

text \<open>The token part, lines 73 to 78.\<close>

definition record_usage :: "env \<Rightarrow> attrs \<Rightarrow> pyval \<Rightarrow> unit prog" where
  "record_usage env shared_attributes response_dict =
     bind (lift (py_get response_dict ''usage'' PNone)) (\<lambda>usage.
       if usage \<noteq> PNone
       then bind (lift (py_items usage)) (record_tokens env shared_attributes)
       else ret ())"

text \<open>The vector size, lines 82 and 83.\<close>

definition vector_size :: "pyval \<Rightarrow> nat prog" where
  "vector_size response_dict =
     bind (lift (py_get response_dict ''data'' PNone)) (\<lambda>data.
     bind (lift (py_index0 (py_or data (PList [PDict []])))) (\<lambda>first.
     bind (lift (py_get first ''embedding'' (PList []))) (\<lambda>vec_embedding.
     lift (py_len vec_embedding))))"

text \<open>The success path, lines 62 to 90.\<close>

definition metrics_success_block :: "env \<Rightarrow> pyval \<Rightarrow> real \<Rightarrow> real \<Rightarrow> pyval prog" where
  "metrics_success_block env response start_time end_time =
     bind (lift (response_as_dict env response)) (\<lambda>response_dict.
     bind (lift (py_get response_dict ''model'' PNone)) (\<lambda>model.
     let shared_attributes = [(''llm.response.model'', py_or model PNone),
                              (''server.address'', PStr (get_openai_base_url env))]
     in
     bind (record_usage env shared_attributes response_dict) (\<lambda>_.
     bind (vector_size response_dict) (\<lambda>vec_size.
     bind (emit (VectorSizeCounterAdd (PInt (int vec_size)) shared_attributes)) (\<lambda>_.
     bind (emit (DurationRecord (end_time - start_time) shared_attributes)) (\<lambda>_.
     ret response))))))"

definition embeddings_metrics_wrapper :: "env \<Rightarrow> callable \<Rightarrow> pyval list \<Rightarrow> attrs \<Rightarrow> pyval prog" where
  "embeddings_metrics_wrapper env wrapped args kwargs s =
     (if suppress_instrumentation env then lift (wrapped args kwargs) s
      else
        (case metrics_try_block env wrapped args kwargs s of
           (Raised e start_time, s1) \<Rightarrow>
             if is_Exception e then metrics_except_block env e start_time s1 else (Inl e, s1)
         | (Completed response start_time end_time, s1) \<Rightarrow>
             metrics_success_block env response start_time end_time s1))"

section \<open>The tracing wrappers\<close>

text \<open>
  Modelled from the spec: the constants of the semantic conventions package, which the
  module imports: \<^verbatim>\<open>SpanAttributes.LLM_PROMPTS\<close>, \<^verbatim>\<open>SpanAttributes.LLM_REQUEST_TYPE\<close>,
  \<^verbatim>\<open>LLMRequestTypeValues.EMBEDDING.value\<close> and \<^verbatim>\<open>SpanKind.CLIENT\<close>. The spec gives the
  attribute keys \<^verbatim>\<open>llm.prompts.<index>.content\<close> and \<^verbatim>\<open>llm.request.type\<close>, the request
  type "embedding" and the kind "client".
\<close>

definition LLM_PROMPTS :: string where
  "LLM_PROMPTS = ''llm.prompts''"

definition LLM_REQUEST_TYPE_KEY :: string where
  "LLM_REQUEST_TYPE_KEY = ''llm.request.type''"

definition LLM_REQUEST_TYPE :: string where
  "LLM_REQUEST_TYPE = ''embedding''"

definition SpanKind_CLIENT :: string where
  "SpanKind_CLIENT = ''client''"

definition SPAN_NAME :: string where
  "SPAN_NAME = ''openai.embeddings''"

text \<open>
  Modelled from the spec: the scoped span of \<^verbatim>\<open>tracer.start_as_current_span\<close>, which
  the module enters with \<^verbatim>\<open>with\<close>. The span starts, the body runs, and the span ends
  on every exit of the body, which the exit passes on unchanged (section 4.3, step 2
  and the state machine of the span).
\<close>

definition start_as_current_span :: "string \<Rightarrow> string \<Rightarrow> attrs \<Rightarrow> 'a prog \<Rightarrow> 'a prog" where
  "start_as_current_span name kind attributes body s =
     (case body (s\<lparr>events := events s @ [SpanStart name kind attributes]\<rparr>) of
        (r, s') \<Rightarrow> (r, s'\<lparr>events := events s' @ [SpanEnd]\<rparr>))"

text \<open>
  Modelled from the spec: \<^verbatim>\<open>start_as_current_span_async\<close> of the package's utilities,
  entered with \<^verbatim>\<open>async with\<close>: the same scope, acquired cooperatively.
\<close>

definition start_as_current_span_async :: "string \<Rightarrow> string \<Rightarrow> attrs \<Rightarrow> 'a prog \<Rightarrow> 'a prog" where
  "start_as_current_span_async name kind attributes body =
     start_as_current_span name kind attributes body"

definition set_span_attribute :: "env \<Rightarrow> string \<Rightarrow> pyval \<Rightarrow> unit prog" where
  "set_span_attribute env name val =
     helper_call (set_span_attribute_raises env name val) (SetSpanAttribute name val)"

definition set_request_attributes :: "env \<Rightarrow> attrs \<Rightarrow> unit prog" where
  "set_request_attributes env kwargs =
     helper_call (set_request_attributes_raises env kwargs) (SetRequestAttributes kwargs)"

definition set_response_attributes :: "env \<Rightarrow> pyval \<Rightarrow> unit prog" where
  "set_response_attributes env response_dict =
     helper_call (set_response_attributes_raises env response_dict) (SetResponseAttributes response_dict)"

text \<open>The loop \<^verbatim>\<open>for i, p in enumerate(prompt)\<close>, lines 149 to 152, from index \<open>i\<close> on.\<close>

fun set_prompts_loop :: "env \<Rightarrow> nat \<Rightarrow> pyval list \<Rightarrow> unit prog" where
  "set_prompts_loop env i [] = ret ()"
| "set_prompts_loop env i (p # ps) =
     bind (set_span_attribute env (LLM_PROMPTS @ ''.'' @ str_nat i @ ''.content'') p)
       (\<lambda>_. set_prompts_loop env (Suc i) ps)"

text \<open>\<^verbatim>\<open>_set_prompts\<close>, lines 143 to 160.\<close>

definition set_prompts :: "env \<Rightarrow> pyval \<Rightarrow> unit prog" where
  "set_prompts env prompt =
     (if \<not> span_is_recording env \<or> \<not> truthy prompt then ret ()
      else
        try_except_Exception
          (case prompt of
             PList ps \<Rightarrow> set_prompts_loop env 0 ps
           | _ \<Rightarrow> set_span_attribute env (LLM_PROMPTS @ ''.0.content'') prompt)
          (\<lambda>ex. emit (LogWarning (''Failed to set prompts for openai span, error: '' @ exn_message ex))))"

text \<open>\<^verbatim>\<open>d.get(key)\<close> on a mapping \<open>d\<close>, as in \<^verbatim>\<open>kwargs.get("input")\<close>.\<close>

definition dict_get :: "attrs \<Rightarrow> string \<Rightarrow> pyval" where
  "dict_get kwargs key = (case map_of kwargs key of Some v \<Rightarrow> v | None \<Rightarrow> PNone)"

text \<open>\<^verbatim>\<open>_handle_request\<close>, lines 128 to 131.\<close>

definition handle_request :: "env \<Rightarrow> attrs \<Rightarrow> unit prog" where
  "handle_request env kwargs =
     bind (set_request_attributes env kwargs) (\<lambda>_.
       if should_send_prompts env then set_prompts env (dict_get kwargs ''input'') else ret ())"

text \<open>\<^verbatim>\<open>_handle_response\<close>, lines 134 to 140.\<close>

definition handle_response :: "env \<Rightarrow> pyval \<Rightarrow> unit prog" where
  "handle_response env response =
     bind (lift (response_as_dict env response)) (set_response_attributes env)"

text \<open>\<^verbatim>\<open>embeddings_wrapper\<close>, lines 94 to 107.\<close>

definition embeddings_wrapper :: "env \<Rightarrow> callable \<Rightarrow> pyval list \<Rightarrow> attrs \<Rightarrow> pyval prog" where
  "embeddings_wrapper env wrapped args kwargs =
     (if suppress_instrumentation env then lift (wrapped args kwargs)
      else
        start_as_current_span SPAN_NAME SpanKind_CLIENT [(LLM_REQUEST_TYPE_KEY, PStr LLM_REQUEST_TYPE)]
          (bind (handle_request env kwargs) (\<lambda>_.
           bind (lift (wrapped args kwargs)) (\<lambda>response.
           bind (handle_response env response) (\<lambda>_.
           ret response)))))"

text \<open>
  \<^verbatim>\<open>aembeddings_wrapper\<close>, lines 111 to 125: what awaiting the wrapper's coroutine does.
  Under suppression line 113 returns \<^verbatim>\<open>wrapped(*args, **kwargs)\<close> as it is; line 122
  awaits it.
\<close>

definition aembeddings_wrapper :: "env \<Rightarrow> callable \<Rightarrow> pyval list \<Rightarrow> attrs \<Rightarrow> pyval prog" where
  "aembeddings_wrapper env wrapped args kwargs =
     (if suppress_instrumentation env then lift (wrapped args kwargs)
      else
        start_as_current_span_async SPAN_NAME SpanKind_CLIENT [(LLM_REQUEST_TYPE_KEY, PStr LLM_REQUEST_TYPE)]
          (bind (handle_request env kwargs) (\<lambda>_.
           bind (bind (lift (wrapped args kwargs)) await) (\<lambda>response.
           bind (handle_response env response) (\<lambda>_.
           ret response)))))"

text \<open>
  Calling the underlying function directly: the synchronous caller calls it, the
  asynchronous caller calls it and awaits what it returned.
\<close>

definition direct_call :: "callable \<Rightarrow> pyval list \<Rightarrow> attrs \<Rightarrow> pyval prog" where
  "direct_call wrapped args kwargs = lift (wrapped args kwargs)"

definition direct_call_async :: "callable \<Rightarrow> pyval list \<Rightarrow> attrs \<Rightarrow> pyval prog" where
  "direct_call_async wrapped args kwargs = bind (lift (wrapped args kwargs)) await"

section \<open>Reading the telemetry log\<close>

fun token_add_of :: "event \<Rightarrow> (pyval \<times> attrs) list" where
  "token_add_of (TokenCounterAdd amount attributes) = [(amount, attributes)]"
| "token_add_of _ = []"

definition token_adds :: "event list \<Rightarrow> (pyval \<times> attrs) list" where
  "token_adds evs = concat (map token_add_of evs)"

fun vector_size_add_of :: "event \<Rightarrow> (pyval \<times> attrs) list" where
  "vector_size_add_of (VectorSizeCounterAdd amount attributes) = [(amount, attributes)]"
| "vector_size_add_of _ = []"

definition vector_size_adds :: "event list \<Rightarrow> (pyval \<times> attrs) list" where
  "vector_size_adds evs = concat (map vector_size_add_of evs)"

fun is_span_end :: "event \<Rightarrow> bool" where
  "is_span_end SpanEnd = True"
| "is_span_end _ = False"

fun is_span_start :: "event \<Rightarrow> bool" where
  "is_span_start (SpanStart _ _ _) = True"
| "is_span_start _ = False"

fun is_response_attributes :: "event \<Rightarrow> bool" where
  "is_response_attributes (SetResponseAttributes _) = True"
| "is_response_attributes _ = False"

definition count_events :: "(event \<Rightarrow> bool) \<Rightarrow> event list \<Rightarrow> nat" where
  "count_events P evs = length (filter P evs)"

text \<open>A program leaves the number of events of a kind as it found it.\<close>

definition preserves_count :: "(event \<Rightarrow> bool) \<Rightarrow> 'a prog \<Rightarrow> bool" where
  "preserves_count P p = (\<forall>s. count_events P (events (snd (p s))) = count_events P (events s))"

text \<open>The add of one usage entry, lines 77 and 78.\<close>

definition token_event :: "attrs \<Rightarrow> string \<times> pyval \<Rightarrow> event" where
  "token_event shared_attributes nv =
     TokenCounterAdd (snd nv)
       (shared_attributes @ [(''llm.usage.token_type'', PStr (split_underscore_first (fst nv)))])"

text \<open>The attributes of the measurements of a successful call, lines 67 to 70.\<close>

definition shared_attributes_of :: "env \<Rightarrow> attrs \<Rightarrow> attrs" where
  "shared_attributes_of env d =
     [(''llm.response.model'', py_or (dict_get d ''model'') PNone),
      (''server.address'', PStr (get_openai_base_url env))]"

text \<open>The attributes of the measurements of a failed call, lines 49 to 52.\<close>

definition error_attributes_of :: "env \<Rightarrow> pyexn \<Rightarrow> attrs" where
  "error_attributes_of env e =
     [(''error.type'', PStr (exn_class e)), (''server.address'', PStr (get_openai_base_url env))]"

text \<open>The key of the prompt at index \<open>i\<close>, line 151.\<close>

definition prompt_key :: "nat \<Rightarrow> string" where
  "prompt_key i = LLM_PROMPTS @ ''.'' @ str_nat i @ ''.content''"

definition prompt_event :: "nat \<times> pyval \<Rightarrow> event" where
  "prompt_event ip = SetSpanAttribute (prompt_key (fst ip)) (snd ip)"

text \<open>The world once the span of the tracing wrappers has started, lines 98 to 102.\<close>

definition span_started :: "world \<Rightarrow> world" where
  "span_started s =
     s\<lparr>events := events s @
        [SpanStart SPAN_NAME SpanKind_CLIENT [(LLM_REQUEST_TYPE_KEY, PStr LLM_REQUEST_TYPE)]]\<rparr>"

section \<open>Concrete collaborators and inputs\<close>

definition example_env :: env where
  "example_env =
     \<lparr>suppress_instrumentation = False, is_openai_v1 = False, should_send_prompts = True,
      get_openai_base_url = ''https://api.openai.com/v1/'',
      OPENAI_LLM_USAGE_TOKEN_TYPES = [''prompt_tokens'', ''completion_tokens''],
      time_time = (\<lambda>n. Inr (real n)), model_as_dict = Inr,
      span_is_recording = True,
      set_request_attributes_raises = (\<lambda>_. None),
      set_response_attributes_raises = (\<lambda>_. None),
      set_span_attribute_raises = (\<lambda>_ _. None)\<rparr>"

definition empty_world :: world where
  "empty_world = \<lparr>events = [], clock_reads = 0\<rparr>"

definition example_response :: pyval where
  "example_response =
     PDict [(''model'', PStr ''text-embedding-ada-002''),
            (''usage'', PDict [(''prompt_tokens'', PInt 5), (''total_tokens'', PInt 5)]),
            (''data'', PList [PDict [(''embedding'', PList [PFloat 1, PFloat 2])]])]"

definition example_kwargs :: attrs where
  "example_kwargs = [(''model'', PStr ''text-embedding-ada-002''), (''input'', PStr ''hello'')]"

definition returns_example :: callable where
  "returns_example args kwargs = Inr example_response"

definition returns_example_async :: callable where
  "returns_example_async args kwargs = Inr (PCoro (Inr example_response))"

definition suppressed_env :: env where
  "suppressed_env = example_env\<lparr>suppress_instrumentation := True\<rparr>"

definition timeout_error :: pyexn where
  "timeout_error = PyExn ''APITimeoutError'' ''Request timed out.'' True"

definition raises_timeout :: callable where
  "raises_timeout args kwargs = Inl timeout_error"

definition raises_timeout_async :: callable where
  "raises_timeout_async args kwargs = Inr (PCoro (Inl timeout_error))"

definition keyboard_interrupt :: pyexn where
  "keyboard_interrupt = PyExn ''KeyboardInterrupt'' [] False"

definition interrupted :: callable where
  "interrupted args kwargs = Inl keyboard_interrupt"

text \<open>A response whose first embedding is \<^verbatim>\<open>None\<close>.\<close>

definition null_embedding_response :: pyval where
  "null_embedding_response = PDict [(''data'', PList [PDict [(''embedding'', PNone)]])]"

definition returns_null_embedding :: callable where
  "returns_null_embedding args kwargs = Inr null_embedding_response"

text \<open>A wall clock that is set back between its first and its second reading.\<close>

definition clock_set_back_env :: env where
  "clock_set_back_env = example_env\<lparr>time_time := (\<lambda>n. if n = 0 then Inr 10 else Inr 5)\<rparr>"

definition returns_empty_dict :: callable where
  "returns_empty_dict args kwargs = Inr (PDict [])"

text \<open>A span that refuses the attribute of the second prompt.\<close>

definition second_prompt_refused :: pyexn where
  "second_prompt_refused = PyExn ''ValueError'' ''invalid attribute value'' True"

definition second_prompt_fails_env :: env where
  "second_prompt_fails_env =
     example_env\<lparr>set_span_attribute_raises :=
       (\<lambda>name val. if name = ''llm.prompts.1.content'' then Some second_prompt_refused else None)\<rparr>"

definition not_recording_env :: env where
  "not_recording_env = example_env\<lparr>span_is_recording := False\<rparr>"

text \<open>An underlying function that returns the given response.\<close>

definition returns :: "pyval \<Rightarrow> callable" where
  "returns response args kwargs = Inr response"

text \<open>A response with two recognised usage entries, one unrecognised and an empty model name.\<close>

definition usage_response :: pyval where
  "usage_response =
     PDict [(''model'', PStr []),
            (''usage'', PDict [(''prompt_tokens'', PInt 10), (''completion_tokens'', PInt 0),
                               (''total_tokens'', PInt 10)]),
            (''data'', PList [PDict [(''index'', PInt 0),
                                     (''embedding'', PList [PFloat 0.1, PFloat 0.2, PFloat 0.3])]])]"

definition empty_data_response :: pyval where
  "empty_data_response = PDict [(''data'', PList [])]"

definition no_embedding_response :: pyval where
  "no_embedding_response = PDict [(''data'', PList [PDict [(''index'', PInt 0)]])]"

section \<open>Facts about the building blocks\<close>

lemma str_nat_0: "str_nat 0 = ''0''"
  by (simp add: str_nat.simps digit_char_def)

lemma str_nat_1: "str_nat (Suc 0) = ''1''"
  by (simp add: str_nat.simps digit_char_def)

lemma prompt_key_0: "prompt_key 0 = ''llm.prompts.0.content''"
  by (simp add: prompt_key_def LLM_PROMPTS_def str_nat_0)

lemma prompt_key_1: "prompt_key (Suc 0) = ''llm.prompts.1.content''"
  by (simp add: prompt_key_def LLM_PROMPTS_def str_nat_1)

lemma bind_ret [simp]: "bind (ret x) f s = f x s"
  by (simp add: bind_def ret_def)

lemma bind_raise [simp]: "bind (raise e) f s = (Inl e, s)"
  by (simp add: bind_def raise_def)

lemma bind_lift_Inr [simp]: "bind (lift (Inr x)) f s = f x s"
  by (simp add: bind_def lift_def)

lemma bind_lift_Inl [simp]: "bind (lift (Inl e)) f s = (Inl e, s)"
  by (simp add: bind_def lift_def)

lemma bind_emit [simp]: "bind (emit ev) f s = f () (s\<lparr>events := events s @ [ev]\<rparr>)"
  by (simp add: bind_def emit_def)

subsection \<open>The try block and its handler\<close>

lemma try_block_raises:
  assumes "time_time env (clock_reads s) = Inr t0" and "wrapped args kwargs = Inl e"
  shows "metrics_try_block env wrapped args kwargs s
           = (Raised e (Some t0), s\<lparr>clock_reads := Suc (clock_reads s)\<rparr>)"
  using assms by (simp add: metrics_try_block_def read_clock_def)

lemma try_block_completes:
  assumes "time_time env (clock_reads s) = Inr t0" and "wrapped args kwargs = Inr response"
    and "time_time env (Suc (clock_reads s)) = Inr t1"
  shows "metrics_try_block env wrapped args kwargs s
           = (Completed response t0 t1, s\<lparr>clock_reads := Suc (Suc (clock_reads s))\<rparr>)"
  using assms by (simp add: metrics_try_block_def read_clock_def)

lemma try_block_no_start:
  assumes "time_time env (clock_reads s) = Inl e"
  shows "metrics_try_block env wrapped args kwargs s
           = (Raised e None, s\<lparr>clock_reads := Suc (clock_reads s)\<rparr>)"
  using assms by (simp add: metrics_try_block_def read_clock_def)

lemma except_block:
  assumes "time_time env (clock_reads s) = Inr t1"
  shows "metrics_except_block env e start_time s =
     (Inl e, s\<lparr>events := events s @
         [TokenCounterAdd (PInt 1) (error_attributes_of env e),
          VectorSizeCounterAdd (PInt 1) (error_attributes_of env e)] @
         (if 0 < (case start_time of Some st \<Rightarrow> t1 - st | None \<Rightarrow> 0)
          then [DurationRecord (case start_time of Some st \<Rightarrow> t1 - st | None \<Rightarrow> 0)
                  (error_attributes_of env e)]
          else []),
        clock_reads := Suc (clock_reads s)\<rparr>)"
  using assms
  by (simp add: metrics_except_block_def read_clock_def bind_def Let_def error_attributes_of_def
      emit_def ret_def raise_def)

lemma metrics_wrapper_success:
  assumes "\<not> suppress_instrumentation env"
    and "time_time env (clock_reads s) = Inr t0"
    and "wrapped args kwargs = Inr response"
    and "time_time env (Suc (clock_reads s)) = Inr t1"
  shows "embeddings_metrics_wrapper env wrapped args kwargs s =
           metrics_success_block env response t0 t1 (s\<lparr>clock_reads := Suc (Suc (clock_reads s))\<rparr>)"
  using assms by (simp add: embeddings_metrics_wrapper_def try_block_completes)

subsection \<open>The success path\<close>

lemma record_tokens_events:
  "record_tokens env sh items s =
     (Inr (), s\<lparr>events := events s @
        map (token_event sh) (filter (\<lambda>nv. fst nv \<in> set (OPENAI_LLM_USAGE_TOKEN_TYPES env)) items)\<rparr>)"
proof (induction items arbitrary: s)
  case Nil
  show ?case by (simp add: ret_def)
next
  case (Cons nv items)
  obtain name val where nv: "nv = (name, val)" by (cases nv)
  show ?case
    by (simp add: nv Cons.IH token_event_def)
qed

lemma record_usage_absent:
  "dict_get d ''usage'' = PNone \<Longrightarrow> record_usage env sh (PDict d) s = (Inr (), s)"
  by (simp add: record_usage_def ret_def dict_get_def)

lemma record_usage_dict:
  "dict_get d ''usage'' = PDict u \<Longrightarrow>
   record_usage env sh (PDict d) s =
     (Inr (), s\<lparr>events := events s @
        map (token_event sh) (filter (\<lambda>nv. fst nv \<in> set (OPENAI_LLM_USAGE_TOKEN_TYPES env)) u)\<rparr>)"
  by (simp add: record_usage_def record_tokens_events dict_get_def)

lemma vector_size_state: "vector_size rd s = (fst (vector_size rd s'), s)"
  by (simp add: vector_size_def bind_def lift_def split: sum.splits)

lemma vector_size_pure: "\<exists>r. \<forall>s. vector_size rd s = (r, s)"
  using vector_size_state by blast

lemma vector_size_no_data:
  "\<not> truthy (dict_get d ''data'') \<Longrightarrow> vector_size (PDict d) s = (Inr 0, s)"
  by (simp add: vector_size_def py_or_def lift_def dict_get_def)

lemma vector_size_first:
  "dict_get d ''data'' = PList (PDict item # rest) \<Longrightarrow>
   vector_size (PDict d) s = (py_len (case map_of item ''embedding'' of Some v \<Rightarrow> v | None \<Rightarrow> PList []), s)"
  by (simp add: vector_size_def py_or_def lift_def dict_get_def)

lemma success_block_dict:
  assumes "response_as_dict env response = Inr (PDict d)"
  shows "metrics_success_block env response t0 t1 s =
     bind (record_usage env (shared_attributes_of env d) (PDict d)) (\<lambda>_.
     bind (vector_size (PDict d)) (\<lambda>vec_size.
     bind (emit (VectorSizeCounterAdd (PInt (int vec_size)) (shared_attributes_of env d))) (\<lambda>_.
     bind (emit (DurationRecord (t1 - t0) (shared_attributes_of env d))) (\<lambda>_.
     ret response)))) s"
  using assms by (simp add: metrics_success_block_def shared_attributes_of_def dict_get_def Let_def)

lemma success_block_result:
  assumes "response_as_dict env response = Inr (PDict d)"
    and "record_usage env (shared_attributes_of env d) (PDict d) s = (Inr (), s')"
    and "vector_size (PDict d) s' = (Inr n, s')"
  shows "metrics_success_block env response t0 t1 s =
     (Inr response, s'\<lparr>events := events s' @
        [VectorSizeCounterAdd (PInt (int n)) (shared_attributes_of env d),
         DurationRecord (t1 - t0) (shared_attributes_of env d)]\<rparr>)"
  using assms by (simp add: success_block_dict bind_def [of "record_usage _ _ _"]
      bind_def [of "vector_size _"] ret_def)

lemma token_adds_append [simp]: "token_adds (xs @ ys) = token_adds xs @ token_adds ys"
  by (simp add: token_adds_def)

lemma token_adds_token_events [simp]:
  "token_adds (map (token_event sh) nvs)
     = map (\<lambda>nv. (snd nv, sh @ [(''llm.usage.token_type'', PStr (split_underscore_first (fst nv)))])) nvs"
  by (induction nvs) (simp_all add: token_adds_def token_event_def)

lemma vector_size_adds_append [simp]:
  "vector_size_adds (xs @ ys) = vector_size_adds xs @ vector_size_adds ys"
  by (simp add: vector_size_adds_def)

lemma vector_size_adds_Nil [simp]: "vector_size_adds [] = []"
  by (simp add: vector_size_adds_def)

lemma vector_size_adds_Cons [simp]:
  "vector_size_adds (ev # evs) = vector_size_add_of ev @ vector_size_adds evs"
  by (simp add: vector_size_adds_def)

lemma token_adds_Nil [simp]: "token_adds [] = []"
  by (simp add: token_adds_def)

lemma token_adds_Cons [simp]: "token_adds (ev # evs) = token_add_of ev @ token_adds evs"
  by (simp add: token_adds_def)

lemma vector_size_adds_token_events [simp]: "vector_size_adds (map (token_event sh) nvs) = []"
  by (induction nvs) (simp_all add: vector_size_adds_def token_event_def)

lemma after_usage_token_adds:
  "token_adds (events (snd (
     bind (vector_size rd) (\<lambda>vec_size.
     bind (emit (VectorSizeCounterAdd (PInt (int vec_size)) sh)) (\<lambda>_.
     bind (emit (DurationRecord dur sh)) (\<lambda>_.
     ret response))) s))) = token_adds (events s)"
proof -
  obtain r where r: "\<And>s. vector_size rd s = (r, s)"
    using vector_size_pure by blast
  show ?thesis
    by (cases r) (simp_all add: bind_def r emit_def ret_def token_adds_def)
qed

lemma usage_then_vector_size:
  assumes "\<not> suppress_instrumentation env"
    and "time_time env (clock_reads s) = Inr t0"
    and "wrapped args kwargs = Inr response"
    and "time_time env (Suc (clock_reads s)) = Inr t1"
    and "response_as_dict env response = Inr (PDict d)"
    and "dict_get d ''usage'' = PNone \<or> (\<exists>u. dict_get d ''usage'' = PDict u)"
    and "\<forall>s'. vector_size (PDict d) s' = (Inr n, s')"
  shows "fst (embeddings_metrics_wrapper env wrapped args kwargs s) = Inr response \<and>
         vector_size_adds (events (snd (embeddings_metrics_wrapper env wrapped args kwargs s)))
           = vector_size_adds (events s) @ [(PInt (int n), shared_attributes_of env d)]"
proof -
  let ?s1 = "s\<lparr>clock_reads := Suc (Suc (clock_reads s))\<rparr>"
  from assms(6) obtain evs where
    usage: "record_usage env (shared_attributes_of env d) (PDict d) ?s1
              = (Inr (), ?s1\<lparr>events := events ?s1 @ evs\<rparr>)"
    and evs: "vector_size_adds evs = []"
  proof
    assume "dict_get d ''usage'' = PNone"
    then have "record_usage env (shared_attributes_of env d) (PDict d) ?s1
              = (Inr (), ?s1\<lparr>events := events ?s1 @ []\<rparr>)"
      by (simp add: record_usage_absent)
    then show ?thesis using that [of "[]"] by simp
  next
    assume "\<exists>u. dict_get d ''usage'' = PDict u"
    then obtain u where "dict_get d ''usage'' = PDict u" ..
    then show ?thesis using that record_usage_dict vector_size_adds_token_events by blast
  qed
  have "embeddings_metrics_wrapper env wrapped args kwargs s =
          (Inr response, ?s1\<lparr>events := events ?s1 @ evs @
             [VectorSizeCounterAdd (PInt (int n)) (shared_attributes_of env d),
              DurationRecord (t1 - t0) (shared_attributes_of env d)]\<rparr>)"
    using assms(1-5) usage assms(7)
    by (simp add: metrics_wrapper_success success_block_result [OF assms(5) usage])
  then show ?thesis
    by (simp add: evs)
qed

subsection \<open>Suppression in the synchronous wrappers\<close>

lemma metrics_wrapper_suppressed:
  "suppress_instrumentation env \<Longrightarrow>
   embeddings_metrics_wrapper env wrapped args kwargs s = (wrapped args kwargs, s)"
  by (simp add: embeddings_metrics_wrapper_def lift_def)

lemma embeddings_wrapper_suppressed:
  "suppress_instrumentation env \<Longrightarrow>
   embeddings_wrapper env wrapped args kwargs s = (wrapped args kwargs, s)"
  by (simp add: embeddings_wrapper_def lift_def)

lemma direct_call_result: "direct_call wrapped args kwargs s = (wrapped args kwargs, s)"
  by (simp add: direct_call_def lift_def)

lemma aembeddings_wrapper_suppressed:
  "suppress_instrumentation env \<Longrightarrow>
   aembeddings_wrapper env wrapped args kwargs s = (wrapped args kwargs, s)"
  by (simp add: aembeddings_wrapper_def lift_def)

subsection \<open>A failure before the timer starts\<close>

lemma failure_before_timer:
  assumes "\<not> suppress_instrumentation env"
    and "time_time env (clock_reads s) = Inl e"
    and "is_Exception e"
    and "time_time env (Suc (clock_reads s)) = Inr t1"
  shows "embeddings_metrics_wrapper env wrapped args kwargs s =
     (Inl e, s\<lparr>events := events s @
         [TokenCounterAdd (PInt 1) (error_attributes_of env e),
          VectorSizeCounterAdd (PInt 1) (error_attributes_of env e)],
        clock_reads := Suc (Suc (clock_reads s))\<rparr>)"
  using assms
  by (simp add: embeddings_metrics_wrapper_def try_block_no_start except_block)

subsection \<open>Setting the prompts\<close>

lemma set_span_attribute_ok:
  "set_span_attribute_raises env name val = None \<Longrightarrow>
   set_span_attribute env name val s = (Inr (), s\<lparr>events := events s @ [SetSpanAttribute name val]\<rparr>)"
  by (simp add: set_span_attribute_def helper_call_def emit_def)

lemma set_span_attribute_fails:
  "set_span_attribute_raises env name val = Some e \<Longrightarrow>
   set_span_attribute env name val s = (Inl e, s)"
  by (simp add: set_span_attribute_def helper_call_def raise_def)

lemma set_prompts_loop_Cons:
  "set_prompts_loop env i (p # ps) =
     bind (set_span_attribute env (prompt_key i) p) (\<lambda>_. set_prompts_loop env (Suc i) ps)"
  by (simp add: prompt_key_def)

lemma set_prompts_loop_ok:
  assumes "\<forall>ip \<in> set (enumerate i ps). set_span_attribute_raises env (prompt_key (fst ip)) (snd ip) = None"
  shows "set_prompts_loop env i ps s =
           (Inr (), s\<lparr>events := events s @ map prompt_event (enumerate i ps)\<rparr>)"
  using assms
proof (induction ps arbitrary: i s)
  case Nil
  show ?case by (simp add: ret_def)
next
  case (Cons p ps)
  have here: "set_span_attribute_raises env (prompt_key i) p = None"
    using Cons.prems by simp
  have rest: "\<forall>ip \<in> set (enumerate (Suc i) ps).
                set_span_attribute_raises env (prompt_key (fst ip)) (snd ip) = None"
    using Cons.prems by simp
  show ?case
    by (simp only: set_prompts_loop_Cons bind_def set_span_attribute_ok [OF here] Cons.IH [OF rest])
       (simp add: prompt_event_def)
qed

lemma set_prompts_loop_fails:
  assumes "\<forall>ip \<in> set (enumerate i pre). set_span_attribute_raises env (prompt_key (fst ip)) (snd ip) = None"
    and "set_span_attribute_raises env (prompt_key (i + length pre)) p = Some e"
  shows "set_prompts_loop env i (pre @ p # post) s =
           (Inl e, s\<lparr>events := events s @ map prompt_event (enumerate i pre)\<rparr>)"
  using assms
proof (induction pre arbitrary: i s)
  case Nil
  then show ?case
    by (simp only: append_Nil set_prompts_loop_Cons bind_def)
       (simp add: set_span_attribute_fails)
next
  case (Cons q pre)
  have here: "set_span_attribute_raises env (prompt_key i) q = None"
    using Cons.prems(1) by simp
  have rest: "\<forall>ip \<in> set (enumerate (Suc i) pre).
                set_span_attribute_raises env (prompt_key (fst ip)) (snd ip) = None"
    using Cons.prems(1) by simp
  have fails: "set_span_attribute_raises env (prompt_key (Suc i + length pre)) p = Some e"
    using Cons.prems(2) by simp
  show ?case
    by (simp only: append_Cons set_prompts_loop_Cons bind_def set_span_attribute_ok [OF here]
          Cons.IH [OF rest fails])
       (simp add: prompt_event_def)
qed

lemma set_prompts_loop_raises_Exception:
  assumes "\<forall>name val e. set_span_attribute_raises env name val = Some e \<longrightarrow> is_Exception e"
  shows "fst (set_prompts_loop env i ps s) = Inl e \<Longrightarrow> is_Exception e"
proof (induction ps arbitrary: i s)
  case Nil
  then show ?case by (simp add: ret_def)
next
  case (Cons p ps)
  show ?case
  proof (cases "set_span_attribute_raises env (prompt_key i) p")
    case None
    with Cons.prems have "fst (set_prompts_loop env (Suc i) ps
        (s\<lparr>events := events s @ [SetSpanAttribute (prompt_key i) p]\<rparr>)) = Inl e"
      by (simp add: set_prompts_loop_Cons bind_def set_span_attribute_ok del: set_prompts_loop.simps)
    then show ?thesis by (rule Cons.IH)
  next
    case (Some e')
    with Cons.prems have "e = e'"
      by (simp add: set_prompts_loop_Cons bind_def set_span_attribute_fails del: set_prompts_loop.simps)
    with Some assms show ?thesis by blast
  qed
qed

lemma set_prompts_returns:
  assumes "\<forall>name val e. set_span_attribute_raises env name val = Some e \<longrightarrow> is_Exception e"
  shows "fst (set_prompts env prompt s) = Inr ()"
proof (cases "\<not> span_is_recording env \<or> \<not> truthy prompt")
  case True
  then show ?thesis by (auto simp: set_prompts_def ret_def)
next
  case False
  define body where "body = (case prompt of
             PList ps \<Rightarrow> set_prompts_loop env 0 ps
           | _ \<Rightarrow> set_span_attribute env (LLM_PROMPTS @ ''.0.content'') prompt)"
  have caught: "is_Exception ex" if "fst (body s) = Inl ex" for ex
  proof (cases "\<exists>ps. prompt = PList ps")
    case True
    then obtain ps where "prompt = PList ps" ..
    with that show ?thesis
      using set_prompts_loop_raises_Exception [OF assms] by (simp add: body_def)
  next
    case False
    then have b: "body = set_span_attribute env (LLM_PROMPTS @ ''.0.content'') prompt"
      by (cases prompt) (simp_all add: body_def)
    show ?thesis
    proof (cases "set_span_attribute_raises env (LLM_PROMPTS @ ''.0.content'') prompt")
      case None
      with that show ?thesis by (simp add: b set_span_attribute_ok)
    next
      case (Some e')
      with that have "ex = e'" by (simp add: b set_span_attribute_fails)
      with Some assms show ?thesis by blast
    qed
  qed
  have "set_prompts env prompt s =
          try_except_Exception body
            (\<lambda>ex. emit (LogWarning (''Failed to set prompts for openai span, error: '' @ exn_message ex))) s"
    using False by (simp add: set_prompts_def body_def)
  then show ?thesis
    using caught
    by (cases "body s") (auto simp: try_except_Exception_def emit_def split: sum.splits)
qed

subsection \<open>Requests and responses\<close>

lemma handle_request_returns:
  assumes "set_request_attributes_raises env kwargs = None"
    and "\<forall>name val e. set_span_attribute_raises env name val = Some e \<longrightarrow> is_Exception e"
  shows "fst (handle_request env kwargs s) = Inr ()"
  using assms(1) set_prompts_returns [OF assms(2)]
  by (simp add: handle_request_def set_request_attributes_def helper_call_def ret_def)

lemma handle_response_returns:
  assumes "response_as_dict env response = Inr rd"
    and "set_response_attributes_raises env rd = None"
  shows "handle_response env response s =
           (Inr (), s\<lparr>events := events s @ [SetResponseAttributes rd]\<rparr>)"
  using assms
  by (simp add: handle_response_def set_response_attributes_def helper_call_def emit_def)

lemma span_scope:
  "start_as_current_span name kind attributes body s =
     (fst (body (s\<lparr>events := events s @ [SpanStart name kind attributes]\<rparr>)),
      (snd (body (s\<lparr>events := events s @ [SpanStart name kind attributes]\<rparr>)))
        \<lparr>events := events (snd (body (s\<lparr>events := events s @ [SpanStart name kind attributes]\<rparr>)))
                    @ [SpanEnd]\<rparr>)"
  by (simp add: start_as_current_span_def split: prod.splits)

lemma embeddings_wrapper_returns:
  assumes "\<not> suppress_instrumentation env"
    and "set_request_attributes_raises env kwargs = None"
    and "\<forall>name val e. set_span_attribute_raises env name val = Some e \<longrightarrow> is_Exception e"
    and "wrapped args kwargs = Inr response"
    and "response_as_dict env response = Inr rd"
    and "set_response_attributes_raises env rd = None"
  shows "fst (embeddings_wrapper env wrapped args kwargs s) = Inr response"
proof -
  obtain s' where "handle_request env kwargs (span_started s) = (Inr (), s')"
    using handle_request_returns [OF assms(2,3), of "span_started s"]
    by (cases "handle_request env kwargs (span_started s)") simp
  then show ?thesis
    using assms(1,4)
    by (simp add: embeddings_wrapper_def span_scope span_started_def bind_def lift_def
        handle_response_returns [OF assms(5,6)] ret_def)
qed

lemma aembeddings_wrapper_returns:
  assumes "\<not> suppress_instrumentation env"
    and "set_request_attributes_raises env kwargs = None"
    and "\<forall>name val e. set_span_attribute_raises env name val = Some e \<longrightarrow> is_Exception e"
    and "wrapped args kwargs = Inr (PCoro (Inr response))"
    and "response_as_dict env response = Inr rd"
    and "set_response_attributes_raises env rd = None"
  shows "fst (aembeddings_wrapper env wrapped args kwargs s) = Inr response"
proof -
  obtain s' where "handle_request env kwargs (span_started s) = (Inr (), s')"
    using handle_request_returns [OF assms(2,3), of "span_started s"]
    by (cases "handle_request env kwargs (span_started s)") simp
  then show ?thesis
    using assms(1,4)
    by (simp add: aembeddings_wrapper_def start_as_current_span_async_def span_scope
        span_started_def bind_def lift_def handle_response_returns [OF assms(5,6)] ret_def)
qed

subsection \<open>Counting events\<close>

lemma count_events_append [simp]:
  "count_events P (xs @ ys) = count_events P xs + count_events P ys"
  by (simp add: count_events_def)

lemma count_events_single [simp]: "count_events P [ev] = (if P ev then 1 else 0)"
  by (simp add: count_events_def)

lemma count_events_Nil [simp]: "count_events P [] = 0"
  by (simp add: count_events_def)

lemma preserves_ret: "preserves_count P (ret x)"
  by (simp add: preserves_count_def ret_def)

lemma preserves_raise: "preserves_count P (raise e)"
  by (simp add: preserves_count_def raise_def)

lemma preserves_lift: "preserves_count P (lift r)"
  by (simp add: preserves_count_def lift_def)

lemma preserves_emit: "\<not> P ev \<Longrightarrow> preserves_count P (emit ev)"
  by (simp add: preserves_count_def emit_def)

lemma preserves_bind:
  assumes "preserves_count P m" and "\<And>x. preserves_count P (f x)"
  shows "preserves_count P (bind m f)"
  unfolding preserves_count_def
proof
  fix s
  obtain r s' where ms: "m s = (r, s')" by (cases "m s")
  have m: "count_events P (events s') = count_events P (events s)"
    using assms(1) ms by (auto simp: preserves_count_def dest: spec [of _ s])
  show "count_events P (events (snd (bind m f s))) = count_events P (events s)"
  proof (cases r)
    case (Inl e)
    then show ?thesis by (simp add: bind_def ms m)
  next
    case (Inr x)
    have "count_events P (events (snd (f x s'))) = count_events P (events s')"
      using assms(2) [of x] by (simp add: preserves_count_def)
    then show ?thesis by (simp add: bind_def ms Inr m)
  qed
qed

lemma preserves_helper_call: "\<not> P ev \<Longrightarrow> preserves_count P (helper_call r ev)"
  by (cases r) (simp_all add: helper_call_def preserves_raise preserves_emit)

lemma preserves_try:
  assumes "preserves_count P body" and "\<And>ex. preserves_count P (handler ex)"
  shows "preserves_count P (try_except_Exception body handler)"
  unfolding preserves_count_def
proof
  fix s
  obtain r s' where bs: "body s = (r, s')" by (cases "body s")
  have b: "count_events P (events s') = count_events P (events s)"
    using assms(1) bs by (auto simp: preserves_count_def dest: spec [of _ s])
  show "count_events P (events (snd (try_except_Exception body handler s))) = count_events P (events s)"
  proof (cases r)
    case (Inl ex)
    have "count_events P (events (snd (handler ex s'))) = count_events P (events s')"
      using assms(2) [of ex] by (simp add: preserves_count_def)
    then show ?thesis by (simp add: try_except_Exception_def bs Inl b)
  next
    case (Inr x)
    then show ?thesis by (simp add: try_except_Exception_def bs b)
  qed
qed

lemma preserves_await: "preserves_count P (await v)"
  by (cases v) (simp_all add: preserves_lift preserves_raise)

lemma preserves_set_prompts_loop:
  assumes "\<And>name val. \<not> P (SetSpanAttribute name val)"
  shows "preserves_count P (set_prompts_loop env i ps)"
proof (induction ps arbitrary: i)
  case Nil
  show ?case by (simp add: preserves_ret)
next
  case (Cons p ps)
  show ?case
    by (simp only: set_prompts_loop_Cons)
       (intro preserves_bind Cons.IH, simp add: set_span_attribute_def preserves_helper_call assms)
qed

lemma preserves_set_prompts:
  assumes "\<And>name val. \<not> P (SetSpanAttribute name val)" and "\<And>m. \<not> P (LogWarning m)"
  shows "preserves_count P (set_prompts env prompt)"
proof -
  have "preserves_count P (case prompt of
             PList ps \<Rightarrow> set_prompts_loop env 0 ps
           | _ \<Rightarrow> set_span_attribute env (LLM_PROMPTS @ ''.0.content'') prompt)"
    by (cases prompt)
       (simp_all add: preserves_set_prompts_loop assms set_span_attribute_def preserves_helper_call)
  then show ?thesis
    by (simp add: set_prompts_def preserves_ret preserves_try preserves_emit assms)
qed

lemma preserves_handle_request:
  assumes "\<And>name val. \<not> P (SetSpanAttribute name val)" and "\<And>m. \<not> P (LogWarning m)"
    and "\<And>kw. \<not> P (SetRequestAttributes kw)"
  shows "preserves_count P (handle_request env kwargs)"
  unfolding handle_request_def
  by (intro preserves_bind)
     (simp_all add: set_request_attributes_def preserves_helper_call preserves_set_prompts
        preserves_ret assms)

lemma preserves_handle_response:
  assumes "\<And>rd. \<not> P (SetResponseAttributes rd)"
  shows "preserves_count P (handle_response env response)"
  unfolding handle_response_def
  by (intro preserves_bind)
     (simp_all add: set_response_attributes_def preserves_helper_call preserves_lift assms)

lemma span_scope_count:
  assumes "preserves_count P body"
  shows "count_events P (events (snd (start_as_current_span name kind attributes body s))) =
           count_events P (events s) + (if P (SpanStart name kind attributes) then 1 else 0)
             + (if P SpanEnd then 1 else 0)"
proof -
  have "count_events P (events (snd (body (s\<lparr>events := events s @ [SpanStart name kind attributes]\<rparr>))))
          = count_events P (events (s\<lparr>events := events s @ [SpanStart name kind attributes]\<rparr>))"
    using assms by (simp add: preserves_count_def)
  then show ?thesis
    by (simp add: span_scope)
qed

lemma span_scope_last:
  "last (events (snd (start_as_current_span name kind attributes body s))) = SpanEnd"
  by (simp add: span_scope)

lemma sync_body_preserves:
  assumes "\<And>name val. \<not> P (SetSpanAttribute name val)" and "\<And>m. \<not> P (LogWarning m)"
    and "\<And>kw. \<not> P (SetRequestAttributes kw)" and "\<And>rd. \<not> P (SetResponseAttributes rd)"
  shows "preserves_count P
           (bind (handle_request env kwargs) (\<lambda>_.
            bind (lift r) (\<lambda>response.
            bind (handle_response env response) (\<lambda>_.
            ret response))))"
  by (intro preserves_bind preserves_handle_request preserves_handle_response preserves_lift
        preserves_ret assms)

lemma async_body_preserves:
  assumes "\<And>name val. \<not> P (SetSpanAttribute name val)" and "\<And>m. \<not> P (LogWarning m)"
    and "\<And>kw. \<not> P (SetRequestAttributes kw)" and "\<And>rd. \<not> P (SetResponseAttributes rd)"
  shows "preserves_count P
           (bind (handle_request env kwargs) (\<lambda>_.
            bind (bind (lift r) await) (\<lambda>response.
            bind (handle_response env response) (\<lambda>_.
            ret response))))"
  by (intro preserves_bind preserves_handle_request preserves_handle_response preserves_lift
        preserves_await preserves_ret assms)

lemma raising_body_preserves:
  assumes "\<And>name val. \<not> P (SetSpanAttribute name val)" and "\<And>m. \<not> P (LogWarning m)"
    and "\<And>kw. \<not> P (SetRequestAttributes kw)"
  shows "preserves_count P (bind (handle_request env kwargs) (\<lambda>_. raise e))"
  by (intro preserves_bind preserves_handle_request preserves_raise assms)

lemma bind_lift_Inl_fun: "bind (lift (Inl e)) f = raise e"
  by (rule ext) (simp add: raise_def)

lemma bind_raise_fun: "bind (raise e) f = raise e"
  by (rule ext) (simp add: raise_def)

lemma bind_lift_Inr_fun: "bind (lift (Inr x)) f = f x"
  by (rule ext) simp

lemma await_raising: "await (PCoro (Inl e)) = lift (Inl e)"
  by simp

text \<open>The tracing wrappers around a call that raises.\<close>

lemma embeddings_wrapper_raising:
  assumes "\<not> suppress_instrumentation env" and "wrapped args kwargs = Inl e"
  shows "embeddings_wrapper env wrapped args kwargs =
           start_as_current_span SPAN_NAME SpanKind_CLIENT [(LLM_REQUEST_TYPE_KEY, PStr LLM_REQUEST_TYPE)]
             (bind (handle_request env kwargs) (\<lambda>_. raise e))"
  using assms by (simp add: embeddings_wrapper_def bind_lift_Inl_fun)

lemma aembeddings_wrapper_raising:
  assumes "\<not> suppress_instrumentation env"
    and "wrapped args kwargs = Inl e \<or> wrapped args kwargs = Inr (PCoro (Inl e))"
  shows "aembeddings_wrapper env wrapped args kwargs =
           start_as_current_span SPAN_NAME SpanKind_CLIENT [(LLM_REQUEST_TYPE_KEY, PStr LLM_REQUEST_TYPE)]
             (bind (handle_request env kwargs) (\<lambda>_. raise e))"
  using assms
  by (auto simp: aembeddings_wrapper_def start_as_current_span_async_def bind_lift_Inl_fun
      bind_raise_fun bind_lift_Inr_fun)

lemma raising_scope:
  "fst (handle_request env kwargs (span_started s)) = Inr () \<Longrightarrow>
   fst (start_as_current_span SPAN_NAME SpanKind_CLIENT [(LLM_REQUEST_TYPE_KEY, PStr LLM_REQUEST_TYPE)]
          (bind (handle_request env kwargs) (\<lambda>_. raise e)) s) = Inl e"
  by (cases "handle_request env kwargs (span_started s)")
     (simp add: span_scope span_started_def bind_def raise_def)

lemma raising_scope_no_response_attributes:
  "count_events is_response_attributes (events (snd (
     start_as_current_span SPAN_NAME SpanKind_CLIENT [(LLM_REQUEST_TYPE_KEY, PStr LLM_REQUEST_TYPE)]
          (bind (handle_request env kwargs) (\<lambda>_. raise e)) s)))
   = count_events is_response_attributes (events s)"
  by (simp add: span_scope_count raising_body_preserves)

section \<open>The claims\<close>

text \<open>
  C1. Passthrough under suppression: with the suppression flag set, each of the three
  wrappers gives the caller what calling the underlying function directly gives, and
  no telemetry. The two synchronous wrappers do (\<open>metrics_wrapper_suppressed\<close>,
  \<open>embeddings_wrapper_suppressed\<close>). The asynchronous wrapper does not: line 113 returns
  \<^verbatim>\<open>wrapped(*args, **kwargs)\<close> without awaiting it, where line 122 awaits it, so the
  caller who awaits the wrapper receives the coroutine object of the underlying
  function, not the response that awaiting the underlying function gives.
\<close>

theorem aembeddings_wrapper_suppressed_returns_coroutine:
  "aembeddings_wrapper suppressed_env returns_example_async [] example_kwargs empty_world
     = (Inr (PCoro (Inr example_response)), empty_world)
   \<and> direct_call_async returns_example_async [] example_kwargs empty_world
     = (Inr example_response, empty_world)
   \<and> PCoro (Inr example_response) \<noteq> example_response"
  by (simp add: aembeddings_wrapper_def direct_call_async_def returns_example_async_def lift_def
      bind_def example_response_def suppressed_env_def example_env_def)

text \<open>
  C2. Exception transparency of the metrics wrapper: when the underlying call raises
  \<open>e\<close>, the wrapper raises \<open>e\<close> itself, and where the handler runs (\<open>e\<close> is an
  \<^verbatim>\<open>Exception\<close>) the two counter adds and the conditional histogram record are in the
  log by the time it re-raises.
\<close>

theorem metrics_wrapper_exception_transparent:
  assumes "\<not> suppress_instrumentation env"
    and "time_time env (clock_reads s) = Inr t0"
    and "wrapped args kwargs = Inl e"
    and "is_Exception e \<longrightarrow> time_time env (Suc (clock_reads s)) = Inr t1"
  shows "fst (embeddings_metrics_wrapper env wrapped args kwargs s) = Inl e \<and>
     (is_Exception e \<longrightarrow>
        events (snd (embeddings_metrics_wrapper env wrapped args kwargs s)) = events s @
         [TokenCounterAdd (PInt 1) (error_attributes_of env e),
          VectorSizeCounterAdd (PInt 1) (error_attributes_of env e)] @
         (if 0 < t1 - t0 then [DurationRecord (t1 - t0) (error_attributes_of env e)] else []))"
  using assms
  by (simp add: embeddings_metrics_wrapper_def try_block_raises except_block)

theorem metrics_wrapper_exception_transparent_witness:
  "fst (embeddings_metrics_wrapper example_env raises_timeout [] example_kwargs empty_world)
     = Inl timeout_error
   \<and> events (snd (embeddings_metrics_wrapper example_env raises_timeout [] example_kwargs empty_world))
     = [TokenCounterAdd (PInt 1)
          [(''error.type'', PStr ''APITimeoutError''),
           (''server.address'', PStr ''https://api.openai.com/v1/'')],
        VectorSizeCounterAdd (PInt 1)
          [(''error.type'', PStr ''APITimeoutError''),
           (''server.address'', PStr ''https://api.openai.com/v1/'')],
        DurationRecord 1
          [(''error.type'', PStr ''APITimeoutError''),
           (''server.address'', PStr ''https://api.openai.com/v1/'')]]
   \<and> fst (embeddings_metrics_wrapper example_env interrupted [] example_kwargs empty_world)
     = Inl keyboard_interrupt"
  using metrics_wrapper_exception_transparent
          [of example_env empty_world 0 raises_timeout "[]" example_kwargs timeout_error 1]
        metrics_wrapper_exception_transparent
          [of example_env empty_world 0 interrupted "[]" example_kwargs keyboard_interrupt 1]
  by (simp add: example_env_def empty_world_def raises_timeout_def timeout_error_def
      interrupted_def keyboard_interrupt_def error_attributes_of_def)

text \<open>
  C3. What the caller sees when the underlying call succeeds: the wrapper returns the
  result of the call unchanged whenever its telemetry steps complete. For the metrics
  wrapper they do when the clock is read, the normalised response is a mapping, its
  usage is absent or a mapping, and its data is absent or empty or a list whose first
  element is a mapping with no embedding or a list or string as embedding. For the
  tracing wrappers they do when the request and response attribute helpers return; an
  \<^verbatim>\<open>Exception\<close> raised while a prompt attribute is set is caught and never reaches the
  caller.
\<close>

theorem wrappers_return_result_when_telemetry_completes:
  assumes "\<not> suppress_instrumentation env"
    and "response_as_dict env response = Inr rd"
  shows "(time_time env (clock_reads s) = Inr t0 \<and> time_time env (Suc (clock_reads s)) = Inr t1 \<and>
          wrapped args kwargs = Inr response \<and>
          (\<exists>d. rd = PDict d \<and>
               (dict_get d ''usage'' = PNone \<or> (\<exists>u. dict_get d ''usage'' = PDict u)) \<and>
               (\<not> truthy (dict_get d ''data'') \<or>
                (\<exists>item rest. dict_get d ''data'' = PList (PDict item # rest) \<and>
                   (map_of item ''embedding'' = None \<or>
                    (\<exists>vec. map_of item ''embedding'' = Some (PList vec)) \<or>
                    (\<exists>str. map_of item ''embedding'' = Some (PStr str)))))) \<longrightarrow>
          fst (embeddings_metrics_wrapper env wrapped args kwargs s) = Inr response)
       \<and> (set_request_attributes_raises env kwargs = None \<and>
          (\<forall>name val e. set_span_attribute_raises env name val = Some e \<longrightarrow> is_Exception e) \<and>
          set_response_attributes_raises env rd = None \<longrightarrow>
            (wrapped args kwargs = Inr response \<longrightarrow>
               fst (embeddings_wrapper env wrapped args kwargs s) = Inr response) \<and>
            (wrapped args kwargs = Inr (PCoro (Inr response)) \<longrightarrow>
               fst (aembeddings_wrapper env wrapped args kwargs s) = Inr response))"
proof (intro conjI impI)
  assume h: "time_time env (clock_reads s) = Inr t0 \<and> time_time env (Suc (clock_reads s)) = Inr t1 \<and>
          wrapped args kwargs = Inr response \<and>
          (\<exists>d. rd = PDict d \<and>
               (dict_get d ''usage'' = PNone \<or> (\<exists>u. dict_get d ''usage'' = PDict u)) \<and>
               (\<not> truthy (dict_get d ''data'') \<or>
                (\<exists>item rest. dict_get d ''data'' = PList (PDict item # rest) \<and>
                   (map_of item ''embedding'' = None \<or>
                    (\<exists>vec. map_of item ''embedding'' = Some (PList vec)) \<or>
                    (\<exists>str. map_of item ''embedding'' = Some (PStr str))))))"
  then obtain d where d: "rd = PDict d"
    and usage: "dict_get d ''usage'' = PNone \<or> (\<exists>u. dict_get d ''usage'' = PDict u)"
    and data: "\<not> truthy (dict_get d ''data'') \<or>
                (\<exists>item rest. dict_get d ''data'' = PList (PDict item # rest) \<and>
                   (map_of item ''embedding'' = None \<or>
                    (\<exists>vec. map_of item ''embedding'' = Some (PList vec)) \<or>
                    (\<exists>str. map_of item ''embedding'' = Some (PStr str))))"
    by blast
  from data obtain n where n: "\<forall>s'. vector_size (PDict d) s' = (Inr n, s')"
  proof
    assume "\<not> truthy (dict_get d ''data'')"
    then show ?thesis using that [of 0] by (simp add: vector_size_no_data)
  next
    assume "\<exists>item rest. dict_get d ''data'' = PList (PDict item # rest) \<and>
                   (map_of item ''embedding'' = None \<or>
                    (\<exists>vec. map_of item ''embedding'' = Some (PList vec)) \<or>
                    (\<exists>str. map_of item ''embedding'' = Some (PStr str)))"
    then obtain item rest where first: "dict_get d ''data'' = PList (PDict item # rest)"
      and emb: "map_of item ''embedding'' = None \<or>
                    (\<exists>vec. map_of item ''embedding'' = Some (PList vec)) \<or>
                    (\<exists>str. map_of item ''embedding'' = Some (PStr str))"
      by blast
    from emb obtain k where
      "py_len (case map_of item ''embedding'' of Some v \<Rightarrow> v | None \<Rightarrow> PList []) = Inr k"
      by auto
    then show ?thesis using that [of k] first by (simp add: vector_size_first)
  qed
  show "fst (embeddings_metrics_wrapper env wrapped args kwargs s) = Inr response"
    using usage_then_vector_size [where wrapped = wrapped and args = args and kwargs = kwargs
        and env = env and s = s and d = d and n = n and response = response and ?t0.0 = t0
        and ?t1.0 = t1]
      assms h usage n d
    by simp
next
  assume h: "set_request_attributes_raises env kwargs = None \<and>
          (\<forall>name val e. set_span_attribute_raises env name val = Some e \<longrightarrow> is_Exception e) \<and>
          set_response_attributes_raises env rd = None"
  {
    assume "wrapped args kwargs = Inr response"
    then show "fst (embeddings_wrapper env wrapped args kwargs s) = Inr response"
      using embeddings_wrapper_returns [where wrapped = wrapped and args = args and kwargs = kwargs
          and env = env and response = response and rd = rd] assms h
      by blast
  }
  {
    assume "wrapped args kwargs = Inr (PCoro (Inr response))"
    then show "fst (aembeddings_wrapper env wrapped args kwargs s) = Inr response"
      using aembeddings_wrapper_returns [where wrapped = wrapped and args = args and kwargs = kwargs
          and env = env and response = response and rd = rd] assms h
      by blast
  }
qed

theorem wrappers_return_result_when_telemetry_completes_witness:
  "fst (embeddings_metrics_wrapper example_env returns_example [] example_kwargs empty_world)
     = Inr example_response
   \<and> fst (embeddings_wrapper example_env returns_example [] example_kwargs empty_world)
     = Inr example_response
   \<and> fst (aembeddings_wrapper example_env returns_example_async [] example_kwargs empty_world)
     = Inr example_response"
  using wrappers_return_result_when_telemetry_completes
          [of example_env example_response example_response empty_world 0 1
              returns_example "[]" example_kwargs]
        wrappers_return_result_when_telemetry_completes
          [of example_env example_response example_response empty_world 0 1
              returns_example_async "[]" example_kwargs]
  by (simp add: example_env_def empty_world_def returns_example_def returns_example_async_def
      example_response_def response_as_dict_def dict_get_def)

theorem metrics_wrapper_telemetry_failure_reaches_caller:
  "returns_null_embedding [] example_kwargs = Inr null_embedding_response
   \<and> fst (embeddings_metrics_wrapper example_env returns_null_embedding [] example_kwargs empty_world)
     = Inl (TypeError (''object of type '' @ quoted ''NoneType'' @ '' has no len()''))"
  by (simp add: embeddings_metrics_wrapper_def metrics_try_block_def read_clock_def
      metrics_success_block_def response_as_dict_def record_usage_def vector_size_def
      py_or_def lift_def ret_def bind_def Let_def emit_def
      example_env_def empty_world_def returns_null_embedding_def null_embedding_response_def)

text \<open>
  C4. Token accounting on success: with the usage sub-mapping present, the token
  counter receives one add per usage entry whose key is in the allow-list, in the
  order of the entries, with the entry's count as amount and the text of the key
  before its first underscore as token type; the other entries give no add; an absent
  usage sub-mapping gives no add. The token type of a key has no underscore in it, and
  the key is the token type itself or the token type, an underscore and the rest.
\<close>

theorem token_accounting_on_success:
  assumes "\<not> suppress_instrumentation env"
    and "time_time env (clock_reads s) = Inr t0"
    and "wrapped args kwargs = Inr response"
    and "time_time env (Suc (clock_reads s)) = Inr t1"
    and "response_as_dict env response = Inr (PDict d)"
  shows "(map_of d ''usage'' = None \<or> map_of d ''usage'' = Some PNone \<longrightarrow>
            token_adds (events (snd (embeddings_metrics_wrapper env wrapped args kwargs s)))
              = token_adds (events s))
       \<and> (\<forall>u. map_of d ''usage'' = Some (PDict u) \<longrightarrow>
            token_adds (events (snd (embeddings_metrics_wrapper env wrapped args kwargs s)))
              = token_adds (events s) @
                map (\<lambda>nv. (snd nv, shared_attributes_of env d @
                        [(''llm.usage.token_type'', PStr (split_underscore_first (fst nv)))]))
                  (filter (\<lambda>nv. fst nv \<in> set (OPENAI_LLM_USAGE_TOKEN_TYPES env)) u))
       \<and> CHR ''_'' \<notin> set (split_underscore_first name)
       \<and> (name = split_underscore_first name \<or>
          (\<exists>rest. name = split_underscore_first name @ CHR ''_'' # rest))"
proof (intro conjI allI impI)
  assume "map_of d ''usage'' = None \<or> map_of d ''usage'' = Some PNone"
  then have "dict_get d ''usage'' = PNone"
    by (auto simp: dict_get_def)
  then show "token_adds (events (snd (embeddings_metrics_wrapper env wrapped args kwargs s)))
              = token_adds (events s)"
    using assms
    by (simp add: metrics_wrapper_success success_block_dict bind_def [of "record_usage _ _ _"]
        record_usage_absent after_usage_token_adds)
next
  fix u assume "map_of d ''usage'' = Some (PDict u)"
  then have "dict_get d ''usage'' = PDict u"
    by (simp add: dict_get_def)
  then show "token_adds (events (snd (embeddings_metrics_wrapper env wrapped args kwargs s)))
              = token_adds (events s) @
                map (\<lambda>nv. (snd nv, shared_attributes_of env d @
                        [(''llm.usage.token_type'', PStr (split_underscore_first (fst nv)))]))
                  (filter (\<lambda>nv. fst nv \<in> set (OPENAI_LLM_USAGE_TOKEN_TYPES env)) u)"
    using assms
    by (simp add: metrics_wrapper_success success_block_dict bind_def [of "record_usage _ _ _"]
        record_usage_dict after_usage_token_adds)
next
  show "CHR ''_'' \<notin> set (split_underscore_first name)"
    by (auto simp: split_underscore_first_def dest: set_takeWhileD)
next
  let ?P = "\<lambda>c. c \<noteq> CHR ''_''"
  have whole: "name = takeWhile ?P name @ dropWhile ?P name"
    by simp
  show "name = split_underscore_first name \<or>
          (\<exists>rest. name = split_underscore_first name @ CHR ''_'' # rest)"
  proof (cases "dropWhile ?P name")
    case Nil
    with whole show ?thesis by (simp add: split_underscore_first_def)
  next
    case (Cons c rest)
    then have "\<not> ?P (hd (dropWhile ?P name))"
      using hd_dropWhile [of ?P name] by simp
    with Cons have "c = CHR ''_''" by simp
    with whole Cons have "name = split_underscore_first name @ CHR ''_'' # rest"
      by (simp add: split_underscore_first_def)
    then show ?thesis by blast
  qed
qed

theorem token_accounting_on_success_witness:
  "token_adds (events (snd (embeddings_metrics_wrapper example_env (returns usage_response) [] example_kwargs empty_world)))
     = [(PInt 10,
         [(''llm.response.model'', PNone),
          (''server.address'', PStr ''https://api.openai.com/v1/''),
          (''llm.usage.token_type'', PStr ''prompt'')]),
        (PInt 0,
         [(''llm.response.model'', PNone),
          (''server.address'', PStr ''https://api.openai.com/v1/''),
          (''llm.usage.token_type'', PStr ''completion'')])]
   \<and> token_adds (events (snd (embeddings_metrics_wrapper example_env returns_empty_dict [] example_kwargs empty_world)))
     = []
   \<and> split_underscore_first ''prompt_tokens'' = ''prompt''
   \<and> split_underscore_first ''completion_tokens'' = ''completion''
   \<and> split_underscore_first ''total'' = ''total''"
  using token_accounting_on_success
          [where env = example_env and s = empty_world and ?t0.0 = 0 and ?t1.0 = 1
             and wrapped = "returns usage_response" and args = "[]" and kwargs = example_kwargs
             and response = usage_response and name = "''prompt_tokens''"
             and d = "[(''model'', PStr []),
                (''usage'', PDict [(''prompt_tokens'', PInt 10), (''completion_tokens'', PInt 0),
                                   (''total_tokens'', PInt 10)]),
                (''data'', PList [PDict [(''index'', PInt 0),
                                         (''embedding'', PList [PFloat 0.1, PFloat 0.2, PFloat 0.3])]])]"]
        token_accounting_on_success
          [where env = example_env and s = empty_world and ?t0.0 = 0 and ?t1.0 = 1
             and wrapped = returns_empty_dict and args = "[]" and kwargs = example_kwargs
             and response = "PDict []" and d = "[]" and name = "''total''"]
  by (simp add: example_env_def empty_world_def returns_def usage_response_def
      returns_empty_dict_def response_as_dict_def dict_get_def shared_attributes_of_def
      py_or_def split_underscore_first_def)

text \<open>
  C5. Vector-size accounting on success, for a response that is a mapping whose usage
  is absent or a mapping: the vector-size counter receives one add and the wrapper
  returns the response. The amount is 0 when the data is absent, \<^verbatim>\<open>None\<close>, an empty list
  or otherwise falsy, and when the first element of the data list is a mapping without
  an embedding; it is the length of the embedding when that is a list. An embedding
  without a length is not covered: there line 83 raises and the counter receives
  nothing.
\<close>

theorem vector_size_accounting_on_success:
  assumes "\<not> suppress_instrumentation env"
    and "time_time env (clock_reads s) = Inr t0"
    and "wrapped args kwargs = Inr response"
    and "time_time env (Suc (clock_reads s)) = Inr t1"
    and "response_as_dict env response = Inr (PDict d)"
    and "map_of d ''usage'' = None \<or> map_of d ''usage'' = Some PNone \<or>
         (\<exists>u. map_of d ''usage'' = Some (PDict u))"
  shows "(map_of d ''data'' = None \<or> map_of d ''data'' = Some PNone \<or>
          map_of d ''data'' = Some (PList []) \<or> (\<exists>v. map_of d ''data'' = Some v \<and> \<not> truthy v) \<longrightarrow>
            fst (embeddings_metrics_wrapper env wrapped args kwargs s) = Inr response \<and>
            vector_size_adds (events (snd (embeddings_metrics_wrapper env wrapped args kwargs s)))
              = vector_size_adds (events s) @ [(PInt 0, shared_attributes_of env d)])
       \<and> (\<forall>item rest. map_of d ''data'' = Some (PList (PDict item # rest)) \<longrightarrow>
            (map_of item ''embedding'' = None \<longrightarrow>
               fst (embeddings_metrics_wrapper env wrapped args kwargs s) = Inr response \<and>
               vector_size_adds (events (snd (embeddings_metrics_wrapper env wrapped args kwargs s)))
                 = vector_size_adds (events s) @ [(PInt 0, shared_attributes_of env d)])
          \<and> (\<forall>vec. map_of item ''embedding'' = Some (PList vec) \<longrightarrow>
               fst (embeddings_metrics_wrapper env wrapped args kwargs s) = Inr response \<and>
               vector_size_adds (events (snd (embeddings_metrics_wrapper env wrapped args kwargs s)))
                 = vector_size_adds (events s) @
                   [(PInt (int (length vec)), shared_attributes_of env d)]))"
proof -
  have usage: "dict_get d ''usage'' = PNone \<or> (\<exists>u. dict_get d ''usage'' = PDict u)"
    using assms(6) by (auto simp: dict_get_def)
  note core = usage_then_vector_size [where wrapped = wrapped and args = args and kwargs = kwargs,
      OF assms(1-5) usage]
  show ?thesis
  proof (intro conjI allI impI)
    assume "map_of d ''data'' = None \<or> map_of d ''data'' = Some PNone \<or>
          map_of d ''data'' = Some (PList []) \<or> (\<exists>v. map_of d ''data'' = Some v \<and> \<not> truthy v)"
    then have "\<not> truthy (dict_get d ''data'')"
      by (auto simp: dict_get_def)
    then have "\<forall>s'. vector_size (PDict d) s' = (Inr 0, s')"
      by (simp add: vector_size_no_data)
    from core [OF this]
    show "fst (embeddings_metrics_wrapper env wrapped args kwargs s) = Inr response"
      and "vector_size_adds (events (snd (embeddings_metrics_wrapper env wrapped args kwargs s)))
              = vector_size_adds (events s) @ [(PInt 0, shared_attributes_of env d)]"
      by simp_all
  next
    fix item rest
    assume "map_of d ''data'' = Some (PList (PDict item # rest))"
      and "map_of item ''embedding'' = None"
    then have "\<forall>s'. vector_size (PDict d) s' = (Inr 0, s')"
      by (simp add: vector_size_first dict_get_def)
    from core [OF this]
    show "fst (embeddings_metrics_wrapper env wrapped args kwargs s) = Inr response"
      and "vector_size_adds (events (snd (embeddings_metrics_wrapper env wrapped args kwargs s)))
              = vector_size_adds (events s) @ [(PInt 0, shared_attributes_of env d)]"
      by simp_all
  next
    fix item rest vec
    assume "map_of d ''data'' = Some (PList (PDict item # rest))"
      and "map_of item ''embedding'' = Some (PList vec)"
    then have "\<forall>s'. vector_size (PDict d) s' = (Inr (length vec), s')"
      by (simp add: vector_size_first dict_get_def)
    from core [OF this]
    show "fst (embeddings_metrics_wrapper env wrapped args kwargs s) = Inr response"
      and "vector_size_adds (events (snd (embeddings_metrics_wrapper env wrapped args kwargs s)))
              = vector_size_adds (events s) @
                   [(PInt (int (length vec)), shared_attributes_of env d)]"
      by simp_all
  qed
qed

theorem vector_size_accounting_on_success_witness:
  "fst (embeddings_metrics_wrapper example_env (returns usage_response) [] example_kwargs empty_world)
     = Inr usage_response
   \<and> vector_size_adds (events (snd (embeddings_metrics_wrapper example_env (returns usage_response) [] example_kwargs empty_world)))
     = [(PInt 3,
         [(''llm.response.model'', PNone),
          (''server.address'', PStr ''https://api.openai.com/v1/'')])]
   \<and> vector_size_adds (events (snd (embeddings_metrics_wrapper example_env returns_example [] example_kwargs empty_world)))
     = [(PInt 2,
         [(''llm.response.model'', PStr ''text-embedding-ada-002''),
          (''server.address'', PStr ''https://api.openai.com/v1/'')])]
   \<and> vector_size_adds (events (snd (embeddings_metrics_wrapper example_env returns_empty_dict [] example_kwargs empty_world)))
     = [(PInt 0,
         [(''llm.response.model'', PNone),
          (''server.address'', PStr ''https://api.openai.com/v1/'')])]
   \<and> vector_size_adds (events (snd (embeddings_metrics_wrapper example_env (returns empty_data_response) [] example_kwargs empty_world)))
     = [(PInt 0,
         [(''llm.response.model'', PNone),
          (''server.address'', PStr ''https://api.openai.com/v1/'')])]
   \<and> fst (embeddings_metrics_wrapper example_env (returns empty_data_response) [] example_kwargs empty_world)
     = Inr empty_data_response
   \<and> vector_size_adds (events (snd (embeddings_metrics_wrapper example_env (returns no_embedding_response) [] example_kwargs empty_world)))
     = [(PInt 0,
         [(''llm.response.model'', PNone),
          (''server.address'', PStr ''https://api.openai.com/v1/'')])]"
  using vector_size_accounting_on_success
          [where env = example_env and s = empty_world and ?t0.0 = 0 and ?t1.0 = 1
             and wrapped = "returns usage_response" and args = "[]" and kwargs = example_kwargs
             and response = usage_response
             and d = "[(''model'', PStr []),
                (''usage'', PDict [(''prompt_tokens'', PInt 10), (''completion_tokens'', PInt 0),
                                   (''total_tokens'', PInt 10)]),
                (''data'', PList [PDict [(''index'', PInt 0),
                                         (''embedding'', PList [PFloat 0.1, PFloat 0.2, PFloat 0.3])]])]"]
        vector_size_accounting_on_success
          [where env = example_env and s = empty_world and ?t0.0 = 0 and ?t1.0 = 1
             and wrapped = returns_example and args = "[]" and kwargs = example_kwargs
             and response = example_response
             and d = "[(''model'', PStr ''text-embedding-ada-002''),
                (''usage'', PDict [(''prompt_tokens'', PInt 5), (''total_tokens'', PInt 5)]),
                (''data'', PList [PDict [(''embedding'', PList [PFloat 1, PFloat 2])]])]"]
        vector_size_accounting_on_success
          [where env = example_env and s = empty_world and ?t0.0 = 0 and ?t1.0 = 1
             and wrapped = returns_empty_dict and args = "[]" and kwargs = example_kwargs
             and response = "PDict []" and d = "[]"]
        vector_size_accounting_on_success
          [where env = example_env and s = empty_world and ?t0.0 = 0 and ?t1.0 = 1
             and wrapped = "returns empty_data_response" and args = "[]" and kwargs = example_kwargs
             and response = empty_data_response and d = "[(''data'', PList [])]"]
        vector_size_accounting_on_success
          [where env = example_env and s = empty_world and ?t0.0 = 0 and ?t1.0 = 1
             and wrapped = "returns no_embedding_response" and args = "[]" and kwargs = example_kwargs
             and response = no_embedding_response
             and d = "[(''data'', PList [PDict [(''index'', PInt 0)]])]"]
  by (simp add: example_env_def empty_world_def returns_def returns_example_def
      example_response_def usage_response_def returns_empty_dict_def empty_data_response_def
      no_embedding_response_def response_as_dict_def dict_get_def shared_attributes_of_def
      py_or_def)

theorem vector_size_add_missing_for_null_embedding:
  "returns_null_embedding [] example_kwargs = Inr null_embedding_response
   \<and> fst (embeddings_metrics_wrapper example_env returns_null_embedding [] example_kwargs empty_world)
     = Inl (TypeError (''object of type '' @ quoted ''NoneType'' @ '' has no len()''))
   \<and> vector_size_adds
       (events (snd (embeddings_metrics_wrapper example_env returns_null_embedding [] example_kwargs empty_world)))
     = []"
  by (simp add: embeddings_metrics_wrapper_def metrics_try_block_def read_clock_def
      metrics_success_block_def response_as_dict_def record_usage_def vector_size_def
      py_or_def lift_def ret_def bind_def Let_def emit_def
      example_env_def empty_world_def returns_null_embedding_def null_embedding_response_def)

text \<open>
  C6. Exception-path measurements: when the underlying call raises an exception that the
  handler catches (an \<^verbatim>\<open>Exception\<close>), the token counter and the vector-size counter
  each receive one add of 1, tagged with the error type and the server address and
  nothing else, and the histogram receives a record with the same attributes exactly
  when the duration is positive. Nothing else is emitted.
\<close>

theorem exception_path_measurements:
  assumes "\<not> suppress_instrumentation env"
    and "time_time env (clock_reads s) = Inr t0"
    and "wrapped args kwargs = Inl e"
    and "is_Exception e"
    and "time_time env (Suc (clock_reads s)) = Inr t1"
  shows "embeddings_metrics_wrapper env wrapped args kwargs s =
     (Inl e, s\<lparr>events := events s @
         [TokenCounterAdd (PInt 1)
            [(''error.type'', PStr (exn_class e)), (''server.address'', PStr (get_openai_base_url env))],
          VectorSizeCounterAdd (PInt 1)
            [(''error.type'', PStr (exn_class e)), (''server.address'', PStr (get_openai_base_url env))]] @
         (if 0 < t1 - t0
          then [DurationRecord (t1 - t0)
                  [(''error.type'', PStr (exn_class e)), (''server.address'', PStr (get_openai_base_url env))]]
          else []),
        clock_reads := Suc (Suc (clock_reads s))\<rparr>)"
  using assms
  by (simp add: embeddings_metrics_wrapper_def try_block_raises except_block error_attributes_of_def)

theorem exception_path_measurements_witness:
  "embeddings_metrics_wrapper example_env raises_timeout [] example_kwargs empty_world =
     (Inl timeout_error,
      \<lparr>events =
         [TokenCounterAdd (PInt 1)
            [(''error.type'', PStr ''APITimeoutError''),
             (''server.address'', PStr ''https://api.openai.com/v1/'')],
          VectorSizeCounterAdd (PInt 1)
            [(''error.type'', PStr ''APITimeoutError''),
             (''server.address'', PStr ''https://api.openai.com/v1/'')],
          DurationRecord 1
            [(''error.type'', PStr ''APITimeoutError''),
             (''server.address'', PStr ''https://api.openai.com/v1/'')]],
       clock_reads = 2\<rparr>)"
  using exception_path_measurements
          [of example_env empty_world 0 raises_timeout "[]" example_kwargs timeout_error 1]
  by (simp add: example_env_def empty_world_def raises_timeout_def timeout_error_def numeral_2_eq_2)

theorem exception_path_skipped_for_keyboard_interrupt:
  "embeddings_metrics_wrapper example_env interrupted [] example_kwargs empty_world =
     (Inl keyboard_interrupt, \<lparr>events = [], clock_reads = 1\<rparr>)"
  by (simp add: embeddings_metrics_wrapper_def metrics_try_block_def read_clock_def
      example_env_def empty_world_def interrupted_def keyboard_interrupt_def)

text \<open>
  C7. Duration safety and non-negativity: every value recorded to the duration
  histogram is at least 0. The handler records a duration only when it is positive (line
  57, "if there are legal duration, record it") and takes 0 for a missing start time
  (\<open>failure_before_timer\<close>), but the success path records
  \<^verbatim>\<open>end_time - start_time\<close> as it is (line 88): with the wall clock of
  \<^verbatim>\<open>time.time()\<close> set back during the call, the histogram receives a negative value.
\<close>

theorem success_path_records_negative_duration:
  "embeddings_metrics_wrapper clock_set_back_env returns_empty_dict [] example_kwargs empty_world =
     (Inr (PDict []),
      \<lparr>events =
         [VectorSizeCounterAdd (PInt 0)
            [(''llm.response.model'', PNone),
             (''server.address'', PStr ''https://api.openai.com/v1/'')],
          DurationRecord (- 5)
            [(''llm.response.model'', PNone),
             (''server.address'', PStr ''https://api.openai.com/v1/'')]],
       clock_reads = 2\<rparr>)"
  by (simp add: embeddings_metrics_wrapper_def metrics_try_block_def read_clock_def
      metrics_success_block_def response_as_dict_def record_usage_def vector_size_def
      py_or_def lift_def ret_def bind_def Let_def emit_def
      clock_set_back_env_def example_env_def empty_world_def returns_empty_dict_def
      numeral_2_eq_2)

text \<open>
  C8. Span lifecycle: with suppression inactive, each tracing wrapper starts one span and
  ends it once, whatever the underlying call and the helpers do, and the end of the span
  is the last thing it does. When the underlying call raises (at the call or, for the
  asynchronous wrapper, when awaited), no response attributes are set, and the caller
  receives the exception of the call. The scope of the span is that of the spec.
\<close>

theorem span_ended_exactly_once:
  assumes "\<not> suppress_instrumentation env"
  shows "count_events is_span_end (events (snd (embeddings_wrapper env wrapped args kwargs s)))
           = Suc (count_events is_span_end (events s))
       \<and> count_events is_span_start (events (snd (embeddings_wrapper env wrapped args kwargs s)))
           = Suc (count_events is_span_start (events s))
       \<and> last (events (snd (embeddings_wrapper env wrapped args kwargs s))) = SpanEnd
       \<and> (\<forall>e. wrapped args kwargs = Inl e \<longrightarrow>
            count_events is_response_attributes (events (snd (embeddings_wrapper env wrapped args kwargs s)))
              = count_events is_response_attributes (events s)
            \<and> (fst (handle_request env kwargs (span_started s)) = Inr () \<longrightarrow>
                 fst (embeddings_wrapper env wrapped args kwargs s) = Inl e))
       \<and> count_events is_span_end (events (snd (aembeddings_wrapper env wrapped args kwargs s)))
           = Suc (count_events is_span_end (events s))
       \<and> count_events is_span_start (events (snd (aembeddings_wrapper env wrapped args kwargs s)))
           = Suc (count_events is_span_start (events s))
       \<and> last (events (snd (aembeddings_wrapper env wrapped args kwargs s))) = SpanEnd
       \<and> (\<forall>e. wrapped args kwargs = Inl e \<or> wrapped args kwargs = Inr (PCoro (Inl e)) \<longrightarrow>
            count_events is_response_attributes (events (snd (aembeddings_wrapper env wrapped args kwargs s)))
              = count_events is_response_attributes (events s)
            \<and> (fst (handle_request env kwargs (span_started s)) = Inr () \<longrightarrow>
                 fst (aembeddings_wrapper env wrapped args kwargs s) = Inl e))"
proof (intro conjI allI impI)
  show "count_events is_span_end (events (snd (embeddings_wrapper env wrapped args kwargs s)))
           = Suc (count_events is_span_end (events s))"
    using assms by (simp add: embeddings_wrapper_def span_scope_count sync_body_preserves)
  show "count_events is_span_start (events (snd (embeddings_wrapper env wrapped args kwargs s)))
           = Suc (count_events is_span_start (events s))"
    using assms by (simp add: embeddings_wrapper_def span_scope_count sync_body_preserves)
  show "last (events (snd (embeddings_wrapper env wrapped args kwargs s))) = SpanEnd"
    using assms by (simp add: embeddings_wrapper_def span_scope_last)
  show "count_events is_span_end (events (snd (aembeddings_wrapper env wrapped args kwargs s)))
           = Suc (count_events is_span_end (events s))"
    using assms
    by (simp add: aembeddings_wrapper_def start_as_current_span_async_def span_scope_count
        async_body_preserves)
  show "count_events is_span_start (events (snd (aembeddings_wrapper env wrapped args kwargs s)))
           = Suc (count_events is_span_start (events s))"
    using assms
    by (simp add: aembeddings_wrapper_def start_as_current_span_async_def span_scope_count
        async_body_preserves)
  show "last (events (snd (aembeddings_wrapper env wrapped args kwargs s))) = SpanEnd"
    using assms
    by (simp add: aembeddings_wrapper_def start_as_current_span_async_def span_scope_last)
next
  fix e assume "wrapped args kwargs = Inl e"
  then have w: "embeddings_wrapper env wrapped args kwargs =
           start_as_current_span SPAN_NAME SpanKind_CLIENT [(LLM_REQUEST_TYPE_KEY, PStr LLM_REQUEST_TYPE)]
             (bind (handle_request env kwargs) (\<lambda>_. raise e))"
    using assms by (simp add: embeddings_wrapper_raising)
  show "count_events is_response_attributes (events (snd (embeddings_wrapper env wrapped args kwargs s)))
              = count_events is_response_attributes (events s)"
    by (simp only: w raising_scope_no_response_attributes)
  assume "fst (handle_request env kwargs (span_started s)) = Inr ()"
  then show "fst (embeddings_wrapper env wrapped args kwargs s) = Inl e"
    by (simp only: w raising_scope)
next
  fix e assume "wrapped args kwargs = Inl e \<or> wrapped args kwargs = Inr (PCoro (Inl e))"
  then have w: "aembeddings_wrapper env wrapped args kwargs =
           start_as_current_span SPAN_NAME SpanKind_CLIENT [(LLM_REQUEST_TYPE_KEY, PStr LLM_REQUEST_TYPE)]
             (bind (handle_request env kwargs) (\<lambda>_. raise e))"
    using assms by (simp add: aembeddings_wrapper_raising)
  show "count_events is_response_attributes (events (snd (aembeddings_wrapper env wrapped args kwargs s)))
              = count_events is_response_attributes (events s)"
    by (simp only: w raising_scope_no_response_attributes)
  assume "fst (handle_request env kwargs (span_started s)) = Inr ()"
  then show "fst (aembeddings_wrapper env wrapped args kwargs s) = Inl e"
    by (simp only: w raising_scope)
qed

theorem span_ended_exactly_once_witness:
  "count_events is_span_end
     (events (snd (embeddings_wrapper example_env raises_timeout [] example_kwargs empty_world))) = 1
   \<and> count_events is_response_attributes
     (events (snd (embeddings_wrapper example_env raises_timeout [] example_kwargs empty_world))) = 0
   \<and> fst (embeddings_wrapper example_env raises_timeout [] example_kwargs empty_world)
       = Inl timeout_error
   \<and> count_events is_span_end
     (events (snd (aembeddings_wrapper example_env raises_timeout_async [] example_kwargs empty_world))) = 1
   \<and> count_events is_response_attributes
     (events (snd (aembeddings_wrapper example_env raises_timeout_async [] example_kwargs empty_world))) = 0
   \<and> fst (aembeddings_wrapper example_env raises_timeout_async [] example_kwargs empty_world)
       = Inl timeout_error
   \<and> count_events is_span_end
     (events (snd (embeddings_wrapper example_env returns_example [] example_kwargs empty_world))) = 1"
  using span_ended_exactly_once [of example_env raises_timeout "[]" example_kwargs empty_world]
        span_ended_exactly_once [of example_env raises_timeout_async "[]" example_kwargs empty_world]
        span_ended_exactly_once [of example_env returns_example "[]" example_kwargs empty_world]
        handle_request_returns [of example_env example_kwargs "span_started empty_world"]
  by (simp add: example_env_def empty_world_def raises_timeout_def raises_timeout_async_def)

text \<open>
  C9. Prompt attributes: with the span recording, a list prompt gives one
  \<^verbatim>\<open>llm.prompts.<i>.content\<close> attribute per element, in order, and a non-empty string
  gives \<^verbatim>\<open>llm.prompts.0.content\<close> alone. When setting an attribute raises an
  \<^verbatim>\<open>Exception\<close>, a warning is logged and the step returns normally; the attributes of
  the elements before the failing one have been set by then and stay set, and no later
  one is set.
\<close>

theorem set_prompts_attributes:
  assumes "span_is_recording env"
  shows "(\<forall>ps. (\<forall>ip \<in> set (enumerate 0 ps).
                  set_span_attribute_raises env (prompt_key (fst ip)) (snd ip) = None) \<longrightarrow>
            set_prompts env (PList ps) s =
              (Inr (), s\<lparr>events := events s @ map prompt_event (enumerate 0 ps)\<rparr>))
       \<and> (\<forall>str. str \<noteq> [] \<and> set_span_attribute_raises env (prompt_key 0) (PStr str) = None \<longrightarrow>
            set_prompts env (PStr str) s =
              (Inr (), s\<lparr>events := events s @ [SetSpanAttribute (prompt_key 0) (PStr str)]\<rparr>))
       \<and> (\<forall>pre p post e.
            (\<forall>ip \<in> set (enumerate 0 pre).
                  set_span_attribute_raises env (prompt_key (fst ip)) (snd ip) = None) \<and>
            set_span_attribute_raises env (prompt_key (length pre)) p = Some e \<and> is_Exception e \<longrightarrow>
            set_prompts env (PList (pre @ p # post)) s =
              (Inr (), s\<lparr>events := events s @ map prompt_event (enumerate 0 pre) @
                 [LogWarning (''Failed to set prompts for openai span, error: '' @ exn_message e)]\<rparr>))
       \<and> (\<forall>str e. str \<noteq> [] \<and> set_span_attribute_raises env (prompt_key 0) (PStr str) = Some e \<and>
                  is_Exception e \<longrightarrow>
            set_prompts env (PStr str) s =
              (Inr (), s\<lparr>events := events s @
                 [LogWarning (''Failed to set prompts for openai span, error: '' @ exn_message e)]\<rparr>))"
proof (intro conjI allI impI)
  fix ps
  assume ok: "\<forall>ip \<in> set (enumerate 0 ps).
                  set_span_attribute_raises env (prompt_key (fst ip)) (snd ip) = None"
  show "set_prompts env (PList ps) s =
              (Inr (), s\<lparr>events := events s @ map prompt_event (enumerate 0 ps)\<rparr>)"
  proof (cases ps)
    case Nil
    then show ?thesis by (simp add: set_prompts_def ret_def)
  next
    case (Cons p ps')
    then show ?thesis
      using assms set_prompts_loop_ok [OF ok, of s]
      by (simp add: set_prompts_def try_except_Exception_def del: set_prompts_loop.simps)
  qed
next
  fix str
  assume "str \<noteq> [] \<and> set_span_attribute_raises env (prompt_key 0) (PStr str) = None"
  then show "set_prompts env (PStr str) s =
              (Inr (), s\<lparr>events := events s @ [SetSpanAttribute (prompt_key 0) (PStr str)]\<rparr>)"
    using assms
    by (simp add: set_prompts_def try_except_Exception_def prompt_key_0 LLM_PROMPTS_def
        set_span_attribute_ok)
next
  fix pre p post e
  assume h: "(\<forall>ip \<in> set (enumerate 0 pre).
                  set_span_attribute_raises env (prompt_key (fst ip)) (snd ip) = None) \<and>
            set_span_attribute_raises env (prompt_key (length pre)) p = Some e \<and> is_Exception e"
  then have "set_prompts_loop env 0 (pre @ p # post) s =
           (Inl e, s\<lparr>events := events s @ map prompt_event (enumerate 0 pre)\<rparr>)"
    using set_prompts_loop_fails [of 0 pre env p e post s] by simp
  then show "set_prompts env (PList (pre @ p # post)) s =
              (Inr (), s\<lparr>events := events s @ map prompt_event (enumerate 0 pre) @
                 [LogWarning (''Failed to set prompts for openai span, error: '' @ exn_message e)]\<rparr>)"
    using assms h
    by (simp add: set_prompts_def try_except_Exception_def emit_def del: set_prompts_loop.simps)
next
  fix str e
  assume "str \<noteq> [] \<and> set_span_attribute_raises env (prompt_key 0) (PStr str) = Some e \<and>
                  is_Exception e"
  then show "set_prompts env (PStr str) s =
              (Inr (), s\<lparr>events := events s @
                 [LogWarning (''Failed to set prompts for openai span, error: '' @ exn_message e)]\<rparr>)"
    using assms
    by (simp add: set_prompts_def try_except_Exception_def prompt_key_0 LLM_PROMPTS_def
        set_span_attribute_fails emit_def)
qed

theorem set_prompts_attributes_witness:
  "set_prompts example_env (PList [PStr ''a'', PStr ''b'']) empty_world =
     (Inr (), \<lparr>events = [SetSpanAttribute ''llm.prompts.0.content'' (PStr ''a''),
                          SetSpanAttribute ''llm.prompts.1.content'' (PStr ''b'')],
               clock_reads = 0\<rparr>)
   \<and> set_prompts example_env (PStr ''a'') empty_world =
     (Inr (), \<lparr>events = [SetSpanAttribute ''llm.prompts.0.content'' (PStr ''a'')],
               clock_reads = 0\<rparr>)
   \<and> set_prompts second_prompt_fails_env (PList [PStr ''a'', PStr ''b'', PStr ''c'']) empty_world =
     (Inr (), \<lparr>events = [SetSpanAttribute ''llm.prompts.0.content'' (PStr ''a''),
                          LogWarning ''Failed to set prompts for openai span, error: invalid attribute value''],
               clock_reads = 0\<rparr>)"
proof -
  have a: "set_prompts example_env (PList [PStr ''a'', PStr ''b'']) empty_world =
     (Inr (), empty_world\<lparr>events := events empty_world @
        map prompt_event (enumerate 0 [PStr ''a'', PStr ''b''])\<rparr>)"
    using set_prompts_attributes [of example_env empty_world]
    by (simp add: example_env_def)
  have b: "set_prompts example_env (PStr ''a'') empty_world =
     (Inr (), empty_world\<lparr>events := events empty_world @
        [SetSpanAttribute (prompt_key 0) (PStr ''a'')]\<rparr>)"
    using set_prompts_attributes [of example_env empty_world]
    by (simp add: example_env_def)
  have "set_prompts second_prompt_fails_env (PList ([PStr ''a''] @ PStr ''b'' # [PStr ''c''])) empty_world =
     (Inr (), empty_world\<lparr>events := events empty_world @
        map prompt_event (enumerate 0 [PStr ''a'']) @
        [LogWarning (''Failed to set prompts for openai span, error: '' @ exn_message second_prompt_refused)]\<rparr>)"
    using set_prompts_attributes [of second_prompt_fails_env empty_world,
            THEN conjunct2, THEN conjunct2, THEN conjunct1, rule_format,
            where pre = "[PStr ''a'']" and p = "PStr ''b''" and post = "[PStr ''c'']"
              and e = second_prompt_refused]
    by (simp add: second_prompt_fails_env_def example_env_def prompt_key_0 prompt_key_1
        second_prompt_refused_def)
  then have c: "set_prompts second_prompt_fails_env (PList [PStr ''a'', PStr ''b'', PStr ''c'']) empty_world =
     (Inr (), empty_world\<lparr>events := events empty_world @
        map prompt_event (enumerate 0 [PStr ''a'']) @
        [LogWarning (''Failed to set prompts for openai span, error: '' @ exn_message second_prompt_refused)]\<rparr>)"
    by simp
  show ?thesis
    unfolding a b c
    by (simp add: empty_world_def prompt_event_def prompt_key_0 prompt_key_1
        second_prompt_refused_def)
qed

theorem set_prompts_partial_attributes_on_failure:
  "set_prompts second_prompt_fails_env (PList [PStr ''a'', PStr ''b'']) empty_world =
     (Inr (), \<lparr>events = [SetSpanAttribute ''llm.prompts.0.content'' (PStr ''a''),
                          LogWarning ''Failed to set prompts for openai span, error: invalid attribute value''],
               clock_reads = 0\<rparr>)"
  by (simp add: set_prompts_def try_except_Exception_def bind_def set_span_attribute_def
      helper_call_def emit_def raise_def LLM_PROMPTS_def str_nat_0 str_nat_1
      second_prompt_fails_env_def example_env_def second_prompt_refused_def empty_world_def)

text \<open>
  C10. The guard of the prompt-setting step: if the span is not recording, or the
  prompt is falsy (no \<^verbatim>\<open>input\<close> key, an empty string, an empty list), the step returns
  normally and leaves the log as it is: no attribute is set and nothing is logged.
\<close>

theorem set_prompts_guard:
  assumes "\<not> span_is_recording env \<or> \<not> truthy prompt"
  shows "set_prompts env prompt s = (Inr (), s)"
  using assms by (auto simp: set_prompts_def ret_def)

theorem set_prompts_guard_witness:
  "set_prompts not_recording_env (PStr ''hello'') empty_world = (Inr (), empty_world)
   \<and> set_prompts example_env (dict_get [(''model'', PStr ''text-embedding-ada-002'')] ''input'') empty_world
       = (Inr (), empty_world)
   \<and> set_prompts example_env (PStr []) empty_world = (Inr (), empty_world)
   \<and> set_prompts example_env (PList []) empty_world = (Inr (), empty_world)"
  using set_prompts_guard [of not_recording_env "PStr ''hello''" empty_world]
        set_prompts_guard [of example_env "dict_get [(''model'', PStr ''text-embedding-ada-002'')] ''input''" empty_world]
        set_prompts_guard [of example_env "PStr []" empty_world]
        set_prompts_guard [of example_env "PList []" empty_world]
  by (simp add: not_recording_env_def example_env_def dict_get_def)

end
